theory Spec2Isabelle
  imports Main "HOL-Library.AList"
begin

section \<open>JavaScript values\<close>

text \<open>
  The metadata object (\<open>tomlObj: any\<close>), the parsed response bodies and the decoded token
  are plain data: what \<open>JSON.parse\<close> yields, plus \<open>undefined\<close>. An object is the list
  of its own properties in insertion order, with distinct keys. Numbers are taken to be
  integers, which is all the code produces (status codes) or compares (\<open>200\<close>).
\<close>

datatype jsval =
    Undefined
  | Null
  | Bool bool
  | Num int
  | Str string
  | Arr "jsval list"
  | Obj "(string \<times> jsval) list"

text \<open>\<open>!v\<close> is \<open>\<not> truthy v\<close>.\<close>

fun truthy :: "jsval \<Rightarrow> bool" where
  "truthy Undefined = False"
| "truthy Null = False"
| "truthy (Bool b) = b"
| "truthy (Num n) = (n \<noteq> 0)"
| "truthy (Str s) = (s \<noteq> [])"
| "truthy (Arr vs) = True"
| "truthy (Obj kvs) = True"

text \<open>
  \<open>v.k\<close> for a key \<open>k\<close> that no prototype defines (all keys read by the code are such):
  a TypeError (\<open>None\<close>) on \<open>undefined\<close> and \<open>null\<close>, the own property of an object,
  and \<open>undefined\<close> in every other case.
\<close>

fun get_prop :: "jsval \<Rightarrow> string \<Rightarrow> jsval option" where
  "get_prop Undefined k = None"
| "get_prop Null k = None"
| "get_prop (Obj kvs) k = (case map_of kvs k of None \<Rightarrow> Some Undefined | Some v \<Rightarrow> Some v)"
| "get_prop v k = Some Undefined"

text \<open>\<open>typeof v === "object"\<close>; note that \<open>typeof null\<close> is \<open>"object"\<close> too.\<close>

fun typeof_object :: "jsval \<Rightarrow> bool" where
  "typeof_object Null = True"
| "typeof_object (Arr vs) = True"
| "typeof_object (Obj kvs) = True"
| "typeof_object v = False"

text \<open>
  ToString, as applied by template literals and by \<open>+\<close> with a string operand. Integers
  print in decimal (ECMAScript does so below \<open>10^21\<close>).
\<close>

fun digits :: "nat \<Rightarrow> string" where
  "digits n = (if n < 10 then [char_of (48 + n)]
               else digits (n div 10) @ [char_of (48 + n mod 10)])"

declare digits.simps [simp del]

fun commas :: "string list \<Rightarrow> string" where
  "commas [] = []"
| "commas [s] = s"
| "commas (s # t) = s @ '','' @ commas t"

fun toStr :: "jsval \<Rightarrow> string" where
  "toStr Undefined = ''undefined''"
| "toStr Null = ''null''"
| "toStr (Bool b) = (if b then ''true'' else ''false'')"
| "toStr (Num n) = (if n < 0 then ''-'' @ digits (nat (- n)) else digits (nat n))"
| "toStr (Str s) = s"
| "toStr (Arr vs) =
     commas (map (\<lambda>v. case v of Undefined \<Rightarrow> [] | Null \<Rightarrow> [] | _ \<Rightarrow> toStr v) vs)"
| "toStr (Obj kvs) = ''[object Object]''"

section \<open>Failures, network calls and the Result\<close>

text \<open>
  Modelled from the spec: the type \<open>Failure\<close> of \<open>../types\<close>, which is not among the
  sources. A Failure has a name and a rendering function over an argument object; a
  materialised one also carries the rendered message. The argument object is the list
  of its properties; \<open>interp a k\<close> is the template fragment \<open>${args.k}\<close>.
\<close>

type_synonym args = "(string \<times> jsval) list"

record Failure =
  name :: string
  "text" :: "args \<Rightarrow> string"
  message :: "string option"

definition interp :: "args \<Rightarrow> string \<Rightarrow> string" where
  "interp a k = toStr (case map_of a k of None \<Rightarrow> Undefined | Some v \<Rightarrow> v)"

text \<open>
  A request as captured at issuance. The body of a POST is kept structured:
  \<open>JsonBody v\<close> is the text \<open>JSON.stringify(v)\<close>, \<open>FormBody ps\<close> is
  \<open>new URLSearchParams(ps)\<close>. The URL is the one the constructor derived from its
  first argument.
\<close>

datatype RequestBody = JsonBody jsval | FormBody "(string \<times> string) list"

record Request =
  url :: string
  "method" :: string
  headers :: "(string \<times> string) list"
  body :: "RequestBody option"

text \<open>
  A response, as far as the code observes it: \<open>status\<close>, \<open>headers.get(name)\<close>
  (\<open>None\<close> for \<open>null\<close>), and what \<open>clone().json()\<close> resolves to (\<open>None\<close> when the
  promise rejects because the body is not JSON).
\<close>

record Response =
  status :: int
  headers_get :: "string \<Rightarrow> string option"
  json :: "jsval option"

text \<open>
  Modelled from the spec: the types \<open>NetworkCall\<close> and \<open>Result\<close> of \<open>../types\<close>,
  which is not among the sources. A NetworkCall records one request and, once
  available, its response. The Result holds the calls in order of issuance, the
  optional failure and the optional diagnostic fields; further fields it may have are
  the extension of the record.
\<close>

record NetworkCall =
  request :: Request
  response :: "Response option"

record Result =
  networkCalls :: "NetworkCall list"
  failure :: "Failure option"
  expected :: "jsval option"
  actual :: "jsval option"

section \<open>The failure catalogs\<close>

definition nl :: string where
  "nl = [CHR 0x0A]"

definition NO_TOML :: Failure where
  "NO_TOML = \<lparr>name = ''no TOML file'',
     text = (\<lambda>_. ''Unable to fetch TOML''), message = None\<rparr>"

definition NO_WEB_AUTH_ENDPOINT :: Failure where
  "NO_WEB_AUTH_ENDPOINT = \<lparr>name = ''no WEB_AUTH_ENDPOINT'',
     text = (\<lambda>_. ''No WEB_AUTH_ENDPOINT in TOML file''), message = None\<rparr>"

definition CONNECTION_ERROR :: Failure where
  "CONNECTION_ERROR = \<lparr>name = ''connection error'',
     text = (\<lambda>a. ''A connection failure occured when making a request to: '' @
                   nl @ nl @ interp a ''url'' @ nl @ nl @
                   ''Make sure that CORS is enabled.''),
     message = None\<rparr>"

definition UNEXPECTED_STATUS_CODE :: Failure where
  "UNEXPECTED_STATUS_CODE = \<lparr>name = ''unexpected status code'',
     text = (\<lambda>_. ''200 Success is expected for valid requests''), message = None\<rparr>"

definition BAD_CONTENT_TYPE :: Failure where
  "BAD_CONTENT_TYPE = \<lparr>name = ''bad content type'',
     text = (\<lambda>_. ''Content-Type headers for responses must be 'application/json'' @
                   [CHR 0x27]),
     message = None\<rparr>"

definition NO_TRANSACTION :: Failure where
  "NO_TRANSACTION = \<lparr>name = ''missing 'transaction' field'',
     text = (\<lambda>_. ''GET /auth response bodies must include a 'transaction' attribute containing a challenge transaction.'' @
                   ''See here for more information:'' @ nl @ nl @
                   ''https://github.com/stellar/stellar-protocol/blob/master/ecosystem/sep-0010.md#response''),
     message = None\<rparr>"

definition DESERIALIZATION_FAILED :: Failure where
  "DESERIALIZATION_FAILED = \<lparr>name = ''transaction deserialization failed'',
     text = (\<lambda>a. ''Unable to decode the 'transaction' value:'' @ nl @ nl @ ''. '' @
                   interp a ''transaction'' @ nl @ nl @
                   ''With network passphrase: '' @ interp a ''networkPassphrase'' @ nl @ nl @
                   [CHR 0x27] @
                   ''transaction' must be a base64-encoded string of the Stellar transaction XDR.''),
     message = None\<rparr>"

definition INVALID_TRANSACTION_TYPE :: Failure where
  "INVALID_TRANSACTION_TYPE = \<lparr>name = ''invalid transaction type'',
     text = (\<lambda>_. ''FeeBumpTransactions are not valid challenge transactions''),
     message = None\<rparr>"

definition NONZERO_SEQUENCE_NUMBER :: Failure where
  "NONZERO_SEQUENCE_NUMBER = \<lparr>name = ''non-zero sequence number'',
     text = (\<lambda>_. ''Challenge transaction must have a sequence number of 0. See the documentation:'' @
                   nl @ nl @
                   ''https://github.com/stellar/stellar-protocol/blob/master/ecosystem/sep-0010.md#response''),
     message = None\<rparr>"

definition NO_TOKEN :: Failure where
  "NO_TOKEN = \<lparr>name = ''no token'',
     text = (\<lambda>_. ''A 'token' attribute must be present in responses to valid POST /auth requests''),
     message = None\<rparr>"

definition JWT_DECODE_FAILURE :: Failure where
  "JWT_DECODE_FAILURE = \<lparr>name = ''JWT decode failure'',
     text = (\<lambda>a. ''Unable to decode the JWT.'' @ nl @ nl @
                   ''The jsonwebtoken library returned: '' @ interp a ''error''),
     message = None\<rparr>"

definition JWT_NOT_JSON :: Failure where
  "JWT_NOT_JSON = \<lparr>name = ''JWT contents is not JSON'',
     text = (\<lambda>_. ''jsonwebtoken was unable to parse the JWT's contents as JSON''),
     message = None\<rparr>"

definition INVALID_JWT_SCHEMA :: Failure where
  "INVALID_JWT_SCHEMA = \<lparr>name = ''invalid JWT content schema'',
     text = (\<lambda>a. interp a ''errors''), message = None\<rparr>"

definition INVALID_JWT_SUB :: Failure where
  "INVALID_JWT_SUB = \<lparr>name = ''invalid jwt 'sub' attribute'',
     text = (\<lambda>_. ''The 'sub' attribute must be the public key of the account '' @
                   ''authenticating via SEP-10 - the client's public key.''),
     message = None\<rparr>"

text \<open>
  A catalog is an object whose properties hold references to Failure objects. Object
  identity matters for what the spread in \<open>postChallengeFailureModes\<close> copies, so the
  objects live in a store (the object at address \<open>i\<close> is the \<open>i\<close>-th element) and a
  catalog maps property names to addresses, in property order.
\<close>

type_synonym ref = nat
type_synonym store = "Failure list"
type_synonym catalog = "(string \<times> ref) list"

text \<open>An object literal whose property values are themselves object literals: each
  value is allocated as a new object.\<close>

fun object_literal :: "(string \<times> Failure) list \<Rightarrow> store \<Rightarrow> catalog \<times> store" where
  "object_literal [] s = ([], s)"
| "object_literal ((k, f) # ps) s =
     (case object_literal ps (s @ [f]) of (c, s') \<Rightarrow> ((k, length s) # c, s'))"

text \<open>The spread \<open>...src\<close> inside an object literal: every own property of \<open>src\<close> is
  defined on the object under construction with the same value, that is, the same
  reference.\<close>

definition spread :: "catalog \<Rightarrow> catalog \<Rightarrow> catalog" where
  "spread dst src = fold (\<lambda>(k, r). AList.update k r) src dst"

definition getChallengeFailureModes_literal :: "(string \<times> Failure) list" where
  "getChallengeFailureModes_literal =
    [(''NO_TOML'', NO_TOML),
     (''NO_WEB_AUTH_ENDPOINT'', NO_WEB_AUTH_ENDPOINT),
     (''CONNECTION_ERROR'', CONNECTION_ERROR),
     (''UNEXPECTED_STATUS_CODE'', UNEXPECTED_STATUS_CODE),
     (''BAD_CONTENT_TYPE'', BAD_CONTENT_TYPE),
     (''NO_TRANSACTION'', NO_TRANSACTION),
     (''DESERIALIZATION_FAILED'', DESERIALIZATION_FAILED),
     (''INVALID_TRANSACTION_TYPE'', INVALID_TRANSACTION_TYPE),
     (''NONZERO_SEQUENCE_NUMBER'', NONZERO_SEQUENCE_NUMBER)]"

definition postChallengeFailureModes_literal :: "(string \<times> Failure) list" where
  "postChallengeFailureModes_literal =
    [(''NO_TOKEN'', NO_TOKEN),
     (''JWT_DECODE_FAILURE'', JWT_DECODE_FAILURE),
     (''JWT_NOT_JSON'', JWT_NOT_JSON),
     (''INVALID_JWT_SCHEMA'', INVALID_JWT_SCHEMA),
     (''INVALID_JWT_SUB'', INVALID_JWT_SUB)]"

text \<open>Module evaluation: the two exported constants, in source order, and the store
  they leave behind.\<close>

definition module_scope :: "catalog \<times> catalog \<times> store" where
  "module_scope =
    (case object_literal getChallengeFailureModes_literal [] of
       (g, s1) \<Rightarrow>
         (case object_literal postChallengeFailureModes_literal s1 of
            (p, s2) \<Rightarrow> (g, spread p g, s2)))"

definition getChallengeFailureModes :: catalog where
  "getChallengeFailureModes = fst module_scope"

definition postChallengeFailureModes :: catalog where
  "postChallengeFailureModes = fst (snd module_scope)"

definition failure_store :: store where
  "failure_store = snd (snd module_scope)"

text \<open>\<open>catalog.KEY\<close>: the Failure object the property refers to, \<open>None\<close> for
  \<open>undefined\<close>.\<close>

definition member :: "catalog \<Rightarrow> string \<Rightarrow> Failure option" where
  "member c k =
    (case map_of c k of
       None \<Rightarrow> None
     | Some a \<Rightarrow> if a < length failure_store then Some (failure_store ! a) else None)"

text \<open>
  Modelled from the spec: \<open>makeFailure\<close> of \<open>./failure\<close>, which is not among the
  sources. It pairs a Failure definition with the argument mapping used at the failure
  site and produces the final rendered message.
\<close>

definition makeFailure :: "Failure \<Rightarrow> args \<Rightarrow> Failure" where
  "makeFailure f a = f\<lparr>message := Some (text f a)\<rparr>"

section \<open>Collaborators\<close>

text \<open>
  The libraries the two functions call are parameters of the model. Where the library
  call throws or its promise rejects, the parameter returns \<open>None\<close> (or \<open>Inl\<close> with the
  error's \<open>message\<close>). \<open>requestURL\<close> is the URL parser inside
  \<open>new Request(input, init)\<close>: it takes the first argument and gives the normalised URL
  the request will carry, or \<open>None\<close> when it rejects the argument and the constructor
  throws. \<open>validate\<close> stands for validation against \<open>jwtSchema\<close> of
  \<open>../schemas/sep10\<close>, which is not among the sources, and yields the errors by their
  string renderings.
\<close>

record Keypair =
  publicKey :: string
  secret :: "string option"

record Transaction =
  sequence :: string
  signatures :: "string list"

record FeeBumpTransaction =
  innerTransaction :: Transaction
  feeSource :: string

text \<open>What \<open>TransactionBuilder.fromXDR\<close> returns: \<open>Transaction | FeeBumpTransaction\<close>.\<close>

datatype envelope = IsTransaction Transaction | IsFeeBumpTransaction FeeBumpTransaction

record env =
  requestURL :: "jsval \<Rightarrow> string option"
  fetch :: "Request \<Rightarrow> Response option"
  fromXDR :: "jsval \<Rightarrow> jsval \<Rightarrow> envelope option"
  sign :: "Transaction \<Rightarrow> Keypair \<Rightarrow> Transaction option"
  toXDR :: "Transaction \<Rightarrow> string"
  decode :: "jsval \<Rightarrow> jsval + jsval"
  validate :: "jsval \<Rightarrow> string list"
  fromPublicKey :: "jsval \<Rightarrow> bool"

text \<open>\<open>new Request(input, {method, headers, body})\<close>, which throws when the parser
  rejects \<open>input\<close>; \<open>new Request(input)\<close> is the case of the method GET with no headers
  and no body.\<close>

definition Request_new ::
  "env \<Rightarrow> jsval \<Rightarrow> string \<Rightarrow> (string \<times> string) list \<Rightarrow> RequestBody option \<Rightarrow> Request option"
where
  "Request_new e input m hs b =
    (case requestURL e input of
       None \<Rightarrow> None
     | Some u \<Rightarrow> Some \<lparr>url = u, method = m, headers = hs, body = b\<rparr>)"

section \<open>Writes to the shared Result\<close>

text \<open>
  Neither function reads \<open>result\<close>: they only write to it. A run is therefore modelled
  by the list of its writes in program order, together with how it ends; \<open>run\<close> replays
  the writes on the Result the caller passed. \<open>SetResponse\<close> is the assignment
  \<open>call.response = ...\<close> to the call object pushed last (nothing is pushed between a
  call's push and that assignment).
\<close>

datatype effect =
    Push NetworkCall
  | SetResponse Response
  | SetFailure Failure
  | SetExpected jsval
  | SetActual jsval

fun perform :: "effect \<Rightarrow> 'a Result_scheme \<Rightarrow> 'a Result_scheme" where
  "perform (Push c) r = r\<lparr>networkCalls := networkCalls r @ [c]\<rparr>"
| "perform (SetResponse x) r =
     r\<lparr>networkCalls :=
         (case rev (networkCalls r) of
            [] \<Rightarrow> []
          | c # cs \<Rightarrow> rev cs @ [c\<lparr>response := Some x\<rparr>])\<rparr>"
| "perform (SetFailure f) r = r\<lparr>failure := Some f\<rparr>"
| "perform (SetExpected v) r = r\<lparr>expected := Some v\<rparr>"
| "perform (SetActual v) r = r\<lparr>actual := Some v\<rparr>"

definition run :: "effect list \<Rightarrow> 'a Result_scheme \<Rightarrow> 'a Result_scheme" where
  "run ws r = fold perform ws r"

text \<open>How a call ends: it returns a value, or an exception leaves it.\<close>

datatype exn = TypeError | InvalidURL | BodyNotJSON | SignError

datatype 'a outcome = Returned 'a | Threw exn

text \<open>
  The statement group \<open>result.failure = makeFailure(catalog.KEY, args); ...; return;\<close>
  after the writes \<open>w\<close>, where \<open>rest\<close> are the writes between the assignment and the
  return. Calling \<open>makeFailure\<close> on a missing catalog entry is a TypeError.
\<close>

definition failing ::
  "effect list \<Rightarrow> catalog \<Rightarrow> string \<Rightarrow> args \<Rightarrow> effect list \<Rightarrow> effect list \<times> 'a option outcome"
where
  "failing w c k a rest =
    (case member c k of
       None \<Rightarrow> (w, Threw TypeError)
     | Some f \<Rightarrow> (w @ SetFailure (makeFailure f a) # rest, Returned None))"

section \<open>getChallenge\<close>

definition getChallenge ::
  "env \<Rightarrow> Keypair \<Rightarrow> jsval \<Rightarrow> effect list \<times> Transaction option outcome"
where
  "getChallenge e clientKeypair tomlObj =
    (if \<not> truthy tomlObj then failing [] getChallengeFailureModes ''NO_TOML'' [] []
     else (case get_prop tomlObj ''WEB_AUTH_ENDPOINT'' of
       None \<Rightarrow> ([], Threw TypeError)
     | Some endpoint \<Rightarrow>
     (if \<not> truthy endpoint
      then failing [] getChallengeFailureModes ''NO_WEB_AUTH_ENDPOINT'' [] []
      else
       (case Request_new e (Str (toStr endpoint @ ''?account='' @ publicKey clientKeypair))
               ''GET'' [] None of
         None \<Rightarrow> ([], Threw InvalidURL)
       | Some getAuthRequest \<Rightarrow>
       (let getAuthCall = \<lparr>request = getAuthRequest, response = None\<rparr>;
            w1 = [Push getAuthCall]
        in (case fetch e (request getAuthCall) of
         None \<Rightarrow>
           failing w1 getChallengeFailureModes ''CONNECTION_ERROR''
             [(''url'', Str (url (request getAuthCall)))] []
       | Some resp \<Rightarrow>
       (let w2 = w1 @ [SetResponse resp] in
        (if status resp \<noteq> 200
         then failing w2 getChallengeFailureModes ''UNEXPECTED_STATUS_CODE'' []
                [SetExpected (Num 200), SetActual (Num (status resp))]
         else
         (let getAuthContentType = headers_get resp ''Content-Type'' in
          (if getAuthContentType = None \<or> getAuthContentType = Some []
              \<or> getAuthContentType \<noteq> Some ''application/json''
           then failing w2 getChallengeFailureModes ''BAD_CONTENT_TYPE'' []
                  (SetExpected (Str ''application/json'') #
                   (case getAuthContentType of
                      None \<Rightarrow> []
                    | Some t \<Rightarrow> (if t \<noteq> [] then [SetActual (Str t)] else [])))
           else (case json resp of
             None \<Rightarrow> (w2, Threw BodyNotJSON)
           | Some responseBody \<Rightarrow>
           (case get_prop responseBody ''transaction'' of
             None \<Rightarrow> (w2, Threw TypeError)
           | Some transaction \<Rightarrow>
           (if \<not> truthy transaction
            then failing w2 getChallengeFailureModes ''NO_TRANSACTION'' [] []
            else (case get_prop tomlObj ''NETWORK_PASSPHRASE'' of
              None \<Rightarrow> (w2, Threw TypeError)
            | Some networkPassphrase \<Rightarrow>
            (case fromXDR e transaction networkPassphrase of
              None \<Rightarrow>
                failing w2 getChallengeFailureModes ''DESERIALIZATION_FAILED''
                  [(''transaction'', transaction),
                   (''networkPassphrase'', networkPassphrase)] []
            | Some decoded \<Rightarrow>
            (case decoded of
              IsFeeBumpTransaction fb \<Rightarrow>
                failing w2 getChallengeFailureModes ''INVALID_TRANSACTION_TYPE'' [] []
            | IsTransaction challenge \<Rightarrow>
                (if sequence challenge \<noteq> ''0''
                 then failing w2 getChallengeFailureModes ''NONZERO_SEQUENCE_NUMBER'' [] []
                 else (w2, Returned (Some challenge)))))))))))))))))))"

section \<open>postChallenge\<close>

text \<open>\<open>errors.join("\n")\<close>, the errors given by their string renderings.\<close>

fun join :: "string \<Rightarrow> string list \<Rightarrow> string" where
  "join sep [] = []"
| "join sep [s] = s"
| "join sep (s # t) = s @ sep @ join sep t"

definition postChallenge ::
  "env \<Rightarrow> Keypair \<Rightarrow> jsval \<Rightarrow> bool \<Rightarrow> effect list \<times> jsval option outcome"
where
  "postChallenge e clientKeypair tomlObj useJson =
    (case getChallenge e clientKeypair tomlObj of
       (w0, got) \<Rightarrow>
     (case got of
       Threw x \<Rightarrow> (w0, Threw x)
     | Returned fetched \<Rightarrow>
     (case fetched of
       None \<Rightarrow> (w0, Returned None)
     | Some challenge \<Rightarrow>
     (case sign e challenge clientKeypair of
       None \<Rightarrow> (w0, Threw SignError)
     | Some signed \<Rightarrow>
     (case get_prop tomlObj ''WEB_AUTH_ENDPOINT'' of
       None \<Rightarrow> (w0, Threw TypeError)
     | Some endpoint \<Rightarrow>
       (case (if useJson
              then Request_new e endpoint ''POST''
                     [(''Content-Type'', ''application/json'')]
                     (Some (JsonBody (Obj [(''transaction'', Str (toXDR e signed))])))
              else Request_new e endpoint ''POST''
                     [(''Content-Type'', ''application/x-www-form-urlencoded'')]
                     (Some (FormBody [(''transaction'', toXDR e signed)]))) of
         None \<Rightarrow> (w0, Threw InvalidURL)
       | Some built \<Rightarrow>
       (let request = built;
            postAuthCall = \<lparr>request = request, response = None\<rparr>;
            w1 = w0 @ [Push postAuthCall]
        in (case fetch e (NetworkCall.request postAuthCall) of
         None \<Rightarrow>
           failing w1 postChallengeFailureModes ''CONNECTION_ERROR''
             [(''url'', Str (url (NetworkCall.request postAuthCall)))] []
       | Some resp \<Rightarrow>
       (let w2 = w1 @ [SetResponse resp] in
        (if status resp \<noteq> 200
         then failing w2 postChallengeFailureModes ''UNEXPECTED_STATUS_CODE'' []
                [SetExpected (Num 200), SetActual (Num (status resp))]
         else
         (let postAuthResponseContentType = headers_get resp ''Content-Type'' in
          (if postAuthResponseContentType = None \<or> postAuthResponseContentType = Some []
              \<or> postAuthResponseContentType \<noteq> Some ''application/json''
           then failing w2 postChallengeFailureModes ''BAD_CONTENT_TYPE'' []
                  (SetExpected (Str ''application/json'') #
                   (case postAuthResponseContentType of
                      None \<Rightarrow> []
                    | Some t \<Rightarrow> (if t \<noteq> [] then [SetActual (Str t)] else [])))
           else (case json resp of
             None \<Rightarrow> (w2, Threw BodyNotJSON)
           | Some responseBody \<Rightarrow>
           (case get_prop responseBody ''token'' of
             None \<Rightarrow> (w2, Threw TypeError)
           | Some token \<Rightarrow>
           (if \<not> truthy token
            then failing w2 postChallengeFailureModes ''NO_TOKEN'' [] []
            else (case decode e token of
              Inl error \<Rightarrow>
                failing w2 postChallengeFailureModes ''JWT_DECODE_FAILURE''
                  [(''error'', error)] []
            | Inr jwtContents \<Rightarrow>
            (if \<not> truthy jwtContents \<or> \<not> typeof_object jwtContents
             then failing w2 postChallengeFailureModes ''JWT_NOT_JSON'' [] []
             else
             (let errors = validate e jwtContents in
              (if length errors \<noteq> 0
               then failing w2 postChallengeFailureModes ''INVALID_JWT_SCHEMA''
                      [(''errors'', Str (join nl errors))] []
               else (case get_prop jwtContents ''sub'' of
                 None \<Rightarrow> failing w2 postChallengeFailureModes ''INVALID_JWT_SUB'' [] []
               | Some sub \<Rightarrow>
                 (if \<not> fromPublicKey e sub
                  then failing w2 postChallengeFailureModes ''INVALID_JWT_SUB'' [] []
                  else (w2, Returned (Some token)))))))))))))))))))))))"

section \<open>Observing a run\<close>

text \<open>The values assigned to \<open>result.failure\<close>, the calls pushed, and the writes that
  follow the first assignment to \<open>result.failure\<close>.\<close>

fun failures :: "effect list \<Rightarrow> Failure list" where
  "failures [] = []"
| "failures (SetFailure f # ws) = f # failures ws"
| "failures (w # ws) = failures ws"

fun pushes :: "effect list \<Rightarrow> NetworkCall list" where
  "pushes [] = []"
| "pushes (Push c # ws) = c # pushes ws"
| "pushes (w # ws) = pushes ws"

fun after_failure :: "effect list \<Rightarrow> effect list" where
  "after_failure [] = []"
| "after_failure (SetFailure f # ws) = ws"
| "after_failure (w # ws) = after_failure ws"

section \<open>The order of checks, as the specification lists them\<close>

text \<open>
  The specification of the fetcher lists nine validated conditions in a fixed order.
  Each is stated here on its own, over what the run observes: the endpoint and
  passphrase of the metadata, the GET request, the response to it, its parsed body, the
  \<open>transaction\<close> field and the decoded envelope. An observation that does not exist
  (no request, no response, no body) violates none of the conditions on it, except
  where the condition is the absence itself. Absent or empty is read as JavaScript
  falsiness.
\<close>

datatype check =
    MetadataAbsent
  | EndpointAbsent
  | TransportFailure
  | StatusNot200
  | BadContentType
  | TransactionMissing
  | DecodeFailure
  | FeeBumpType
  | NonzeroSequence

definition spec_order :: "check list" where
  "spec_order = [MetadataAbsent, EndpointAbsent, TransportFailure, StatusNot200,
     BadContentType, TransactionMissing, DecodeFailure, FeeBumpType, NonzeroSequence]"

fun spec_failure :: "check \<Rightarrow> Failure" where
  "spec_failure MetadataAbsent = NO_TOML"
| "spec_failure EndpointAbsent = NO_WEB_AUTH_ENDPOINT"
| "spec_failure TransportFailure = CONNECTION_ERROR"
| "spec_failure StatusNot200 = UNEXPECTED_STATUS_CODE"
| "spec_failure BadContentType = BAD_CONTENT_TYPE"
| "spec_failure TransactionMissing = NO_TRANSACTION"
| "spec_failure DecodeFailure = DESERIALIZATION_FAILED"
| "spec_failure FeeBumpType = INVALID_TRANSACTION_TYPE"
| "spec_failure NonzeroSequence = NONZERO_SEQUENCE_NUMBER"

definition field_of :: "jsval \<Rightarrow> string \<Rightarrow> jsval" where
  "field_of v k = (case get_prop v k of None \<Rightarrow> Undefined | Some x \<Rightarrow> x)"

text \<open>\<open>GET {WEB_AUTH_ENDPOINT}?account={publicKeyOf(accountKeypair)}\<close>\<close>

definition spec_get_request :: "env \<Rightarrow> Keypair \<Rightarrow> jsval \<Rightarrow> Request option" where
  "spec_get_request e kp tomlObj =
    Request_new e
      (Str (toStr (field_of tomlObj ''WEB_AUTH_ENDPOINT'') @ ''?account='' @ publicKey kp))
      ''GET'' [] None"

definition spec_response :: "env \<Rightarrow> Keypair \<Rightarrow> jsval \<Rightarrow> Response option" where
  "spec_response e kp tomlObj =
    (case spec_get_request e kp tomlObj of None \<Rightarrow> None | Some q \<Rightarrow> fetch e q)"

definition spec_body :: "env \<Rightarrow> Keypair \<Rightarrow> jsval \<Rightarrow> jsval option" where
  "spec_body e kp tomlObj =
    (case spec_response e kp tomlObj of None \<Rightarrow> None | Some r \<Rightarrow> json r)"

definition spec_transaction_field :: "env \<Rightarrow> Keypair \<Rightarrow> jsval \<Rightarrow> jsval" where
  "spec_transaction_field e kp tomlObj =
    (case spec_body e kp tomlObj of
       None \<Rightarrow> Undefined
     | Some b \<Rightarrow> field_of b ''transaction'')"

definition spec_decoded :: "env \<Rightarrow> Keypair \<Rightarrow> jsval \<Rightarrow> envelope option" where
  "spec_decoded e kp tomlObj =
    fromXDR e (spec_transaction_field e kp tomlObj) (field_of tomlObj ''NETWORK_PASSPHRASE'')"

fun spec_violated :: "env \<Rightarrow> Keypair \<Rightarrow> jsval \<Rightarrow> check \<Rightarrow> bool" where
  "spec_violated e kp t MetadataAbsent = (\<not> truthy t)"
| "spec_violated e kp t EndpointAbsent = (\<not> truthy (field_of t ''WEB_AUTH_ENDPOINT''))"
| "spec_violated e kp t TransportFailure =
     (case spec_get_request e kp t of None \<Rightarrow> False | Some q \<Rightarrow> fetch e q = None)"
| "spec_violated e kp t StatusNot200 =
     (case spec_response e kp t of None \<Rightarrow> False | Some r \<Rightarrow> status r \<noteq> 200)"
| "spec_violated e kp t BadContentType =
     (case spec_response e kp t of
        None \<Rightarrow> False
      | Some r \<Rightarrow> headers_get r ''Content-Type'' \<noteq> Some ''application/json'')"
| "spec_violated e kp t TransactionMissing = (\<not> truthy (spec_transaction_field e kp t))"
| "spec_violated e kp t DecodeFailure = (spec_decoded e kp t = None)"
| "spec_violated e kp t FeeBumpType =
     (case spec_decoded e kp t of
        None \<Rightarrow> False
      | Some d \<Rightarrow> (case d of IsFeeBumpTransaction fb \<Rightarrow> True | IsTransaction c \<Rightarrow> False))"
| "spec_violated e kp t NonzeroSequence =
     (case spec_decoded e kp t of
        None \<Rightarrow> False
      | Some d \<Rightarrow>
          (case d of IsFeeBumpTransaction fb \<Rightarrow> False
           | IsTransaction c \<Rightarrow> sequence c \<noteq> ''0''))"

definition spec_first_violation :: "env \<Rightarrow> Keypair \<Rightarrow> jsval \<Rightarrow> check option" where
  "spec_first_violation e kp t = find (spec_violated e kp t) spec_order"

text \<open>The body of the GET response parses as JSON to a value other than \<open>null\<close>.\<close>

definition body_parses :: "env \<Rightarrow> Keypair \<Rightarrow> jsval \<Rightarrow> bool" where
  "body_parses e kp t =
    (case spec_body e kp t of None \<Rightarrow> False | Some b \<Rightarrow> get_prop b ''transaction'' \<noteq> None)"

text \<open>The POST request of the submitter: same endpoint, the signed envelope as the
  single field \<open>transaction\<close>, JSON or form encoded.\<close>

definition spec_post_request ::
  "env \<Rightarrow> jsval \<Rightarrow> Transaction \<Rightarrow> bool \<Rightarrow> Request option"
where
  "spec_post_request e tomlObj signed useJson =
    (if useJson
     then Request_new e (field_of tomlObj ''WEB_AUTH_ENDPOINT'') ''POST''
            [(''Content-Type'', ''application/json'')]
            (Some (JsonBody (Obj [(''transaction'', Str (toXDR e signed))])))
     else Request_new e (field_of tomlObj ''WEB_AUTH_ENDPOINT'') ''POST''
            [(''Content-Type'', ''application/x-www-form-urlencoded'')]
            (Some (FormBody [(''transaction'', toXDR e signed)])))"

section \<open>Example collaborators\<close>

text \<open>
  A client, a metadata object and a family of scripted servers for concrete runs: the
  server answers the GET and the POST with the given responses (\<open>None\<close> is a transport
  failure), the codec decodes every envelope to \<open>decoded\<close>, the token decoder yields
  \<open>jwt\<close>, the schema validator reports \<open>errs\<close>, and \<open>keys\<close> are the strings that parse
  as public keys. Signing appends the secret to the signatures and needs one. The URL
  parser rejects what is not a string and every string with an opening bracket (an
  unterminated IPv6 literal such as \<open>http://[::1\<close>), and leaves the other strings as
  they are.
\<close>

definition client :: Keypair where
  "client = \<lparr>publicKey = ''GCLIENT'', secret = Some ''SCLIENT''\<rparr>"

definition stellar_toml :: jsval where
  "stellar_toml = Obj [(''WEB_AUTH_ENDPOINT'', Str ''https://x/auth''),
                       (''NETWORK_PASSPHRASE'', Str ''Test SDF Network ; September 2015'')]"

definition json_response :: "int \<Rightarrow> jsval \<Rightarrow> Response" where
  "json_response code b =
    \<lparr>status = code,
     headers_get = (\<lambda>h. if h = ''Content-Type'' then Some ''application/json'' else None),
     json = Some b\<rparr>"

definition typed_response :: "string option \<Rightarrow> Response" where
  "typed_response ct =
    \<lparr>status = 200,
     headers_get = (\<lambda>h. if h = ''Content-Type'' then ct else None),
     json = None\<rparr>"

definition challenge_with :: "string \<Rightarrow> Transaction" where
  "challenge_with s = \<lparr>sequence = s, signatures = []\<rparr>"

definition server ::
  "Response option \<Rightarrow> Response option \<Rightarrow> envelope option \<Rightarrow> jsval + jsval \<Rightarrow>
   string list \<Rightarrow> string list \<Rightarrow> env"
where
  "server getResponse postResponse decoded jwt errs keys =
    \<lparr>requestURL = (\<lambda>x. case x of
                            Str s \<Rightarrow> (if CHR ''['' \<in> set s then None else Some s)
                          | _ \<Rightarrow> None),
     fetch = (\<lambda>r. if method r = ''GET'' then getResponse else postResponse),
     fromXDR = (\<lambda>x p. decoded),
     sign = (\<lambda>t k. case secret k of
                      None \<Rightarrow> None
                    | Some s \<Rightarrow> Some (t\<lparr>signatures := signatures t @ [s]\<rparr>)),
     toXDR = (\<lambda>t. ''AAAA''),
     decode = (\<lambda>x. jwt),
     validate = (\<lambda>x. errs),
     fromPublicKey = (\<lambda>x. case x of Str s \<Rightarrow> s \<in> set keys | _ \<Rightarrow> False)\<rparr>"

definition challenge_body :: jsval where
  "challenge_body = Obj [(''transaction'', Str ''AAAA'')]"

definition token_body :: jsval where
  "token_body = Obj [(''token'', Str ''h.p.s'')]"

definition jwt_payload :: jsval where
  "jwt_payload = Obj [(''sub'', Str ''GOTHER''), (''iat'', Num 1), (''exp'', Num 2)]"

text \<open>A server whose challenge has the given sequence number, and one whose answer to the
  GET is the given response.\<close>

definition sequence_server :: "string \<Rightarrow> env" where
  "sequence_server q =
    server (Some (json_response 200 challenge_body)) (Some (json_response 200 token_body))
      (Some (IsTransaction (challenge_with q))) (Inr jwt_payload) []
      [''GCLIENT'', ''GOTHER'']"

definition get_server :: "Response option \<Rightarrow> env" where
  "get_server answer =
    server answer (Some (json_response 200 token_body))
      (Some (IsTransaction (challenge_with ''0''))) (Inr jwt_payload) []
      [''GCLIENT'', ''GOTHER'']"

text \<open>A server that hands out a valid challenge and answers the POST with the given
  response; the token decodes to \<open>jwt\<close>.\<close>

definition post_server :: "Response option \<Rightarrow> jsval + jsval \<Rightarrow> env" where
  "post_server answer jwt =
    server (Some (json_response 200 challenge_body)) answer
      (Some (IsTransaction (challenge_with ''0''))) jwt []
      [''GCLIENT'', ''GOTHER'']"

text \<open>What the fetch writes against such a server, and the challenge once signed by
  the client.\<close>

definition challenge_request :: Request where
  "challenge_request =
    \<lparr>url = ''https://x/auth?account=GCLIENT'', method = ''GET'', headers = [],
     body = None\<rparr>"

definition submission_request :: "bool \<Rightarrow> Request" where
  "submission_request useJson =
    (if useJson
     then \<lparr>url = ''https://x/auth'', method = ''POST'',
           headers = [(''Content-Type'', ''application/json'')],
           body = Some (JsonBody (Obj [(''transaction'', Str ''AAAA'')]))\<rparr>
     else \<lparr>url = ''https://x/auth'', method = ''POST'',
           headers = [(''Content-Type'', ''application/x-www-form-urlencoded'')],
           body = Some (FormBody [(''transaction'', ''AAAA'')])\<rparr>)"

definition fetch_writes :: "effect list" where
  "fetch_writes =
    [Push \<lparr>request = challenge_request, response = None\<rparr>,
     SetResponse (json_response 200 challenge_body)]"

text \<open>A metadata object whose endpoint the URL parser rejects.\<close>

definition broken_toml :: jsval where
  "broken_toml = Obj [(''WEB_AUTH_ENDPOINT'', Str ''http://[::1'')]"

definition signed_challenge :: Transaction where
  "signed_challenge = \<lparr>sequence = ''0'', signatures = [''SCLIENT'']\<rparr>"

definition fresh_result :: Result where
  "fresh_result = \<lparr>networkCalls = [], failure = None, expected = None, actual = None\<rparr>"

text \<open>A server that follows the protocol, with a token whose subject is a well-formed
  key other than the client's.\<close>

definition good_server :: env where
  "good_server =
    server (Some (json_response 200 challenge_body)) (Some (json_response 200 token_body))
      (Some (IsTransaction (challenge_with ''0''))) (Inr jwt_payload) []
      [''GCLIENT'', ''GOTHER'']"

section \<open>Stages of a run\<close>

text \<open>
  \<open>requested\<close>: the metadata and its endpoint are truthy and the GET request \<open>q\<close> was
  built. \<open>body_read\<close>: moreover the GET was answered by \<open>r\<close> with status 200 and the JSON
  content type, so the run goes on to read the body. \<open>submitted\<close>: the fetch returned
  the challenge \<open>c\<close> after the writes \<open>w0\<close>, signing gave \<open>s\<close>, the POST request \<open>p\<close> was
  built and was answered by \<open>r\<close>. \<open>token_read\<close>: that answer has status 200, the JSON
  content type and the parsed body \<open>b\<close>.
\<close>

definition requested :: "env \<Rightarrow> Keypair \<Rightarrow> jsval \<Rightarrow> Request \<Rightarrow> bool" where
  "requested e kp t q \<longleftrightarrow>
     truthy t \<and> truthy (field_of t ''WEB_AUTH_ENDPOINT'') \<and> spec_get_request e kp t = Some q"

definition body_read :: "env \<Rightarrow> Keypair \<Rightarrow> jsval \<Rightarrow> Request \<Rightarrow> Response \<Rightarrow> bool" where
  "body_read e kp t q r \<longleftrightarrow>
     requested e kp t q \<and> fetch e q = Some r \<and>
     status r = 200 \<and> headers_get r ''Content-Type'' = Some ''application/json''"

definition submitted ::
  "env \<Rightarrow> Keypair \<Rightarrow> jsval \<Rightarrow> bool \<Rightarrow> effect list \<Rightarrow> Transaction \<Rightarrow> Transaction \<Rightarrow>
   Request \<Rightarrow> Response \<Rightarrow> bool"
where
  "submitted e kp t useJson w0 c s p r \<longleftrightarrow>
     getChallenge e kp t = (w0, Returned (Some c)) \<and> sign e c kp = Some s \<and>
     spec_post_request e t s useJson = Some p \<and> fetch e p = Some r"

definition token_read ::
  "env \<Rightarrow> Keypair \<Rightarrow> jsval \<Rightarrow> bool \<Rightarrow> effect list \<Rightarrow> Transaction \<Rightarrow> Transaction \<Rightarrow>
   Request \<Rightarrow> Response \<Rightarrow> jsval \<Rightarrow> bool"
where
  "token_read e kp t useJson w0 c s p r b \<longleftrightarrow>
     submitted e kp t useJson w0 c s p r \<and> status r = 200 \<and>
     headers_get r ''Content-Type'' = Some ''application/json'' \<and> json r = Some b"

section \<open>The catalogs, evaluated\<close>

lemmas module_defs = member_def getChallengeFailureModes_def postChallengeFailureModes_def
  failure_store_def module_scope_def getChallengeFailureModes_literal_def
  postChallengeFailureModes_literal_def spread_def

lemma member_get:
  "member getChallengeFailureModes ''NO_TOML'' = Some NO_TOML"
  "member getChallengeFailureModes ''NO_WEB_AUTH_ENDPOINT'' = Some NO_WEB_AUTH_ENDPOINT"
  "member getChallengeFailureModes ''CONNECTION_ERROR'' = Some CONNECTION_ERROR"
  "member getChallengeFailureModes ''UNEXPECTED_STATUS_CODE'' = Some UNEXPECTED_STATUS_CODE"
  "member getChallengeFailureModes ''BAD_CONTENT_TYPE'' = Some BAD_CONTENT_TYPE"
  "member getChallengeFailureModes ''NO_TRANSACTION'' = Some NO_TRANSACTION"
  "member getChallengeFailureModes ''DESERIALIZATION_FAILED'' = Some DESERIALIZATION_FAILED"
  "member getChallengeFailureModes ''INVALID_TRANSACTION_TYPE'' = Some INVALID_TRANSACTION_TYPE"
  "member getChallengeFailureModes ''NONZERO_SEQUENCE_NUMBER'' = Some NONZERO_SEQUENCE_NUMBER"
  by (simp_all add: module_defs)

lemma member_post:
  "member postChallengeFailureModes ''CONNECTION_ERROR'' = Some CONNECTION_ERROR"
  "member postChallengeFailureModes ''UNEXPECTED_STATUS_CODE'' = Some UNEXPECTED_STATUS_CODE"
  "member postChallengeFailureModes ''BAD_CONTENT_TYPE'' = Some BAD_CONTENT_TYPE"
  "member postChallengeFailureModes ''NO_TOKEN'' = Some NO_TOKEN"
  "member postChallengeFailureModes ''JWT_DECODE_FAILURE'' = Some JWT_DECODE_FAILURE"
  "member postChallengeFailureModes ''JWT_NOT_JSON'' = Some JWT_NOT_JSON"
  "member postChallengeFailureModes ''INVALID_JWT_SCHEMA'' = Some INVALID_JWT_SCHEMA"
  "member postChallengeFailureModes ''INVALID_JWT_SUB'' = Some INVALID_JWT_SUB"
  by (simp_all add: module_defs)

lemma failing_member:
  "member c k = Some f \<Longrightarrow>
   failing w c k a rest = (w @ SetFailure (makeFailure f a) # rest, Returned None)"
  by (simp add: failing_def)

lemmas failing_get = member_get [THEN failing_member]
lemmas failing_post = member_post [THEN failing_member]

section \<open>The paths of getChallenge\<close>

lemma get_prop_truthy: "truthy v \<Longrightarrow> get_prop v k = Some (field_of v k)"
  by (cases v) (simp_all add: field_of_def split: option.splits)

lemma get_prop_field_of: "get_prop v k = Some x \<Longrightarrow> field_of v k = x"
  by (simp add: field_of_def)

lemmas get_defs = requested_def body_read_def getChallenge_def spec_get_request_def

lemma path_no_toml:
  "\<not> truthy t \<Longrightarrow>
   getChallenge e kp t = ([SetFailure (makeFailure NO_TOML [])], Returned None)"
  by (simp add: getChallenge_def failing_get)

lemma path_no_endpoint:
  "truthy t \<Longrightarrow> \<not> truthy (field_of t ''WEB_AUTH_ENDPOINT'') \<Longrightarrow>
   getChallenge e kp t = ([SetFailure (makeFailure NO_WEB_AUTH_ENDPOINT [])], Returned None)"
  by (simp add: getChallenge_def failing_get get_prop_truthy)

lemma path_invalid_url:
  "truthy t \<Longrightarrow> truthy (field_of t ''WEB_AUTH_ENDPOINT'') \<Longrightarrow>
   spec_get_request e kp t = None \<Longrightarrow>
   getChallenge e kp t = ([], Threw InvalidURL)"
  by (simp add: get_defs failing_get get_prop_truthy)

lemma path_connection_error:
  "requested e kp t q \<Longrightarrow> fetch e q = None \<Longrightarrow>
   getChallenge e kp t =
     ([Push \<lparr>request = q, response = None\<rparr>,
       SetFailure (makeFailure CONNECTION_ERROR [(''url'', Str (url q))])],
      Returned None)"
  by (simp add: get_defs failing_get get_prop_truthy)

lemma path_status:
  "requested e kp t q \<Longrightarrow> fetch e q = Some r \<Longrightarrow> status r \<noteq> 200 \<Longrightarrow>
   getChallenge e kp t =
     ([Push \<lparr>request = q, response = None\<rparr>, SetResponse r,
       SetFailure (makeFailure UNEXPECTED_STATUS_CODE []),
       SetExpected (Num 200), SetActual (Num (status r))],
      Returned None)"
  by (simp add: get_defs failing_get get_prop_truthy)

lemma path_content_type:
  "requested e kp t q \<Longrightarrow> fetch e q = Some r \<Longrightarrow>
   status r = 200 \<Longrightarrow> headers_get r ''Content-Type'' \<noteq> Some ''application/json'' \<Longrightarrow>
   getChallenge e kp t =
     ([Push \<lparr>request = q, response = None\<rparr>, SetResponse r,
       SetFailure (makeFailure BAD_CONTENT_TYPE []),
       SetExpected (Str ''application/json'')] @
      (case headers_get r ''Content-Type'' of
         None \<Rightarrow> []
       | Some ct \<Rightarrow> if ct \<noteq> [] then [SetActual (Str ct)] else []),
      Returned None)"
  by (simp add: get_defs failing_get get_prop_truthy Let_def)

lemma path_body_not_json:
  "body_read e kp t q r \<Longrightarrow> json r = None \<Longrightarrow>
   getChallenge e kp t =
     ([Push \<lparr>request = q, response = None\<rparr>, SetResponse r],
      Threw BodyNotJSON)"
  by (simp add: get_defs failing_get get_prop_truthy Let_def)

lemma path_body_null:
  "body_read e kp t q r \<Longrightarrow> json r = Some b \<Longrightarrow> get_prop b ''transaction'' = None \<Longrightarrow>
   getChallenge e kp t =
     ([Push \<lparr>request = q, response = None\<rparr>, SetResponse r],
      Threw TypeError)"
  by (simp add: get_defs failing_get get_prop_truthy Let_def)

lemma path_no_transaction:
  "body_read e kp t q r \<Longrightarrow> json r = Some b \<Longrightarrow> get_prop b ''transaction'' = Some v \<Longrightarrow>
   \<not> truthy v \<Longrightarrow>
   getChallenge e kp t =
     ([Push \<lparr>request = q, response = None\<rparr>, SetResponse r,
       SetFailure (makeFailure NO_TRANSACTION [])],
      Returned None)"
  by (simp add: get_defs failing_get get_prop_truthy Let_def)

lemma path_deserialization:
  "body_read e kp t q r \<Longrightarrow> json r = Some b \<Longrightarrow> get_prop b ''transaction'' = Some v \<Longrightarrow>
   truthy v \<Longrightarrow> fromXDR e v (field_of t ''NETWORK_PASSPHRASE'') = None \<Longrightarrow>
   getChallenge e kp t =
     ([Push \<lparr>request = q, response = None\<rparr>, SetResponse r,
       SetFailure (makeFailure DESERIALIZATION_FAILED
         [(''transaction'', v), (''networkPassphrase'', field_of t ''NETWORK_PASSPHRASE'')])],
      Returned None)"
  by (simp add: get_defs failing_get get_prop_truthy Let_def)

lemma path_fee_bump:
  "body_read e kp t q r \<Longrightarrow> json r = Some b \<Longrightarrow> get_prop b ''transaction'' = Some v \<Longrightarrow>
   truthy v \<Longrightarrow>
   fromXDR e v (field_of t ''NETWORK_PASSPHRASE'') = Some (IsFeeBumpTransaction fb) \<Longrightarrow>
   getChallenge e kp t =
     ([Push \<lparr>request = q, response = None\<rparr>, SetResponse r,
       SetFailure (makeFailure INVALID_TRANSACTION_TYPE [])],
      Returned None)"
  by (simp add: get_defs failing_get get_prop_truthy Let_def)

lemma path_sequence:
  "body_read e kp t q r \<Longrightarrow> json r = Some b \<Longrightarrow> get_prop b ''transaction'' = Some v \<Longrightarrow>
   truthy v \<Longrightarrow> fromXDR e v (field_of t ''NETWORK_PASSPHRASE'') = Some (IsTransaction c) \<Longrightarrow>
   getChallenge e kp t =
     (if sequence c = ''0''
      then ([Push \<lparr>request = q, response = None\<rparr>, SetResponse r],
            Returned (Some c))
      else ([Push \<lparr>request = q, response = None\<rparr>, SetResponse r,
             SetFailure (makeFailure NONZERO_SEQUENCE_NUMBER [])],
            Returned None))"
  by (simp add: get_defs failing_get get_prop_truthy Let_def)

lemma name_makeFailure: "name (makeFailure f a) = name f"
  by (simp add: makeFailure_def)

lemma getChallenge_paths [case_names no_toml no_endpoint invalid_url connection status
    content_type body_not_json body_null no_transaction deserialization fee_bump sequence]:
  obtains "\<not> truthy t"
  | "truthy t" "\<not> truthy (field_of t ''WEB_AUTH_ENDPOINT'')"
  | "truthy t" "truthy (field_of t ''WEB_AUTH_ENDPOINT'')" "spec_get_request e kp t = None"
  | q where "requested e kp t q" "fetch e q = None"
  | q r where "requested e kp t q" "fetch e q = Some r" "status r \<noteq> 200"
  | q r where "requested e kp t q" "fetch e q = Some r" "status r = 200"
      "headers_get r ''Content-Type'' \<noteq> Some ''application/json''"
  | q r where "body_read e kp t q r" "json r = None"
  | q r b where "body_read e kp t q r" "json r = Some b" "get_prop b ''transaction'' = None"
  | q r b v where "body_read e kp t q r" "json r = Some b"
      "get_prop b ''transaction'' = Some v" "\<not> truthy v"
  | q r b v where "body_read e kp t q r" "json r = Some b"
      "get_prop b ''transaction'' = Some v" "truthy v"
      "fromXDR e v (field_of t ''NETWORK_PASSPHRASE'') = None"
  | q r b v fb where "body_read e kp t q r" "json r = Some b"
      "get_prop b ''transaction'' = Some v" "truthy v"
      "fromXDR e v (field_of t ''NETWORK_PASSPHRASE'') = Some (IsFeeBumpTransaction fb)"
  | q r b v c where "body_read e kp t q r" "json r = Some b"
      "get_prop b ''transaction'' = Some v" "truthy v"
      "fromXDR e v (field_of t ''NETWORK_PASSPHRASE'') = Some (IsTransaction c)"
proof (cases "truthy t \<and> truthy (field_of t ''WEB_AUTH_ENDPOINT'')")
  case False
  with that(1,2) show ?thesis by blast
next
  case tt: True
  show ?thesis
  proof (cases "spec_get_request e kp t")
    case None
    with tt that(3) show ?thesis by blast
  next
    case (Some q)
    with tt have rq: "requested e kp t q" by (simp add: requested_def)
    show ?thesis
    proof (cases "fetch e q")
      case None
      with rq that(4) show ?thesis by blast
    next
      case (Some r)
      show ?thesis
      proof (cases "body_read e kp t q r")
        case False
        with rq Some that(5,6) show ?thesis unfolding body_read_def by blast
      next
        case br: True
        show ?thesis
        proof (cases "json r")
          case None
          with br that(7) show ?thesis by blast
        next
          case b: (Some b)
          show ?thesis
          proof (cases "get_prop b ''transaction''")
            case None
            with br b that(8) show ?thesis by blast
          next
            case v: (Some v)
            show ?thesis
            proof (cases "fromXDR e v (field_of t ''NETWORK_PASSPHRASE'')")
              case None
              with br b v that(9,10) show ?thesis by blast
            next
              case (Some d)
              with br b v that(9,11,12) show ?thesis by (cases d) blast+
            qed
          qed
        qed
      qed
    qed
  qed
qed

lemma getChallenge_returns_challenge:
  assumes ret: "getChallenge e kp t = (w, Returned (Some c))"
  shows "\<exists>q r b v. body_read e kp t q r \<and> json r = Some b \<and>
           get_prop b ''transaction'' = Some v \<and> truthy v \<and>
           fromXDR e v (field_of t ''NETWORK_PASSPHRASE'') = Some (IsTransaction c) \<and>
           sequence c = ''0'' \<and>
           w = [Push \<lparr>request = q, response = None\<rparr>, SetResponse r]"
proof (cases rule: getChallenge_paths [where t = t and e = e and kp = kp])
  case no_toml
  with ret show ?thesis by (simp add: path_no_toml)
next
  case no_endpoint
  with ret show ?thesis by (simp add: path_no_endpoint)
next
  case invalid_url
  with ret show ?thesis by (simp add: path_invalid_url)
next
  case (connection q)
  with ret show ?thesis by (simp add: path_connection_error)
next
  case (status q r)
  with ret show ?thesis by (simp add: path_status)
next
  case (content_type q r)
  with ret show ?thesis by (simp add: path_content_type)
next
  case (body_not_json q r)
  with ret show ?thesis by (simp add: path_body_not_json)
next
  case (body_null q r b)
  with ret show ?thesis by (simp add: path_body_null)
next
  case (no_transaction q r b v)
  with ret show ?thesis by (simp add: path_no_transaction)
next
  case (deserialization q r b v)
  with ret show ?thesis by (simp add: path_deserialization)
next
  case (fee_bump q r b v fb)
  with ret show ?thesis by (simp add: path_fee_bump)
next
  case (sequence q r b v c')
  from ret path_sequence [OF sequence] have
    "sequence c' = ''0'' \<and> c' = c \<and> w = [Push \<lparr>request = q, response = None\<rparr>, SetResponse r]"
    by (auto split: if_splits)
  with sequence show ?thesis by blast
qed

lemma failures_append: "failures (a @ b) = failures a @ failures b"
  by (induction a rule: failures.induct) simp_all

lemma pushes_append: "pushes (a @ b) = pushes a @ pushes b"
  by (induction a rule: pushes.induct) simp_all

lemma after_failure_append:
  "failures a = [] \<Longrightarrow> after_failure (a @ b) = after_failure b"
  by (induction a rule: after_failure.induct) simp_all

lemma getChallenge_trace_shape:
  "length (failures (fst (getChallenge e kp t))) \<le> 1 \<and>
   pushes (after_failure (fst (getChallenge e kp t))) = []"
proof (cases rule: getChallenge_paths [where t = t and e = e and kp = kp])
  case no_toml
  then show ?thesis by (simp add: path_no_toml)
next
  case no_endpoint
  then show ?thesis by (simp add: path_no_endpoint)
next
  case invalid_url
  then show ?thesis by (simp add: path_invalid_url)
next
  case (connection q)
  then show ?thesis by (simp add: path_connection_error)
next
  case (status q r)
  then show ?thesis by (simp add: path_status)
next
  case (content_type q r)
  then show ?thesis by (simp add: path_content_type split: option.split)
next
  case (body_not_json q r)
  then show ?thesis by (simp add: path_body_not_json)
next
  case (body_null q r b)
  then show ?thesis by (simp add: path_body_null)
next
  case (no_transaction q r b v)
  then show ?thesis by (simp add: path_no_transaction)
next
  case (deserialization q r b v)
  then show ?thesis by (simp add: path_deserialization)
next
  case (fee_bump q r b v fb)
  then show ?thesis by (simp add: path_fee_bump)
next
  case (sequence q r b v c)
  then show ?thesis by (simp add: path_sequence)
qed

section \<open>The paths of postChallenge\<close>

lemma fetched_truthy:
  assumes "getChallenge e kp t = (w0, Returned (Some c))"
  shows "get_prop t ''WEB_AUTH_ENDPOINT'' = Some (field_of t ''WEB_AUTH_ENDPOINT'')"
  using getChallenge_returns_challenge [OF assms]
  by (auto simp: body_read_def requested_def get_prop_truthy)

lemma post_path_nothing:
  "getChallenge e kp t = (w0, Returned None) \<Longrightarrow>
   postChallenge e kp t useJson = (w0, Returned None)"
  by (simp add: postChallenge_def)

lemma post_path_threw:
  "getChallenge e kp t = (w0, Threw x) \<Longrightarrow>
   postChallenge e kp t useJson = (w0, Threw x)"
  by (simp add: postChallenge_def)

lemma post_path_sign:
  "getChallenge e kp t = (w0, Returned (Some c)) \<Longrightarrow> sign e c kp = None \<Longrightarrow>
   postChallenge e kp t useJson = (w0, Threw SignError)"
  by (simp add: postChallenge_def)

lemma post_path_invalid_url:
  assumes "getChallenge e kp t = (w0, Returned (Some c))" and "sign e c kp = Some s"
    and "spec_post_request e t s useJson = None"
  shows "postChallenge e kp t useJson = (w0, Threw InvalidURL)"
  using assms fetched_truthy [OF assms(1)]
  by (simp add: postChallenge_def spec_post_request_def split: if_splits)

lemma post_path_connection_error:
  assumes "getChallenge e kp t = (w0, Returned (Some c))" and "sign e c kp = Some s"
    and "spec_post_request e t s useJson = Some p" and "fetch e p = None"
  shows "postChallenge e kp t useJson =
     (w0 @ [Push \<lparr>request = p, response = None\<rparr>,
            SetFailure (makeFailure CONNECTION_ERROR [(''url'', Str (url p))])],
      Returned None)"
  using assms fetched_truthy [OF assms(1)]
  by (simp add: postChallenge_def failing_post spec_post_request_def Let_def split: if_splits)

lemma post_path_status:
  assumes "submitted e kp t useJson w0 c s p r" and "status r \<noteq> 200"
  shows "postChallenge e kp t useJson =
     (w0 @ [Push \<lparr>request = p, response = None\<rparr>,
            SetResponse r, SetFailure (makeFailure UNEXPECTED_STATUS_CODE []),
            SetExpected (Num 200), SetActual (Num (status r))],
      Returned None)"
  using assms fetched_truthy [of e kp t w0 c]
  by (simp add: submitted_def postChallenge_def failing_post spec_post_request_def Let_def
      split: if_splits)

lemma post_path_content_type:
  assumes "submitted e kp t useJson w0 c s p r" and "status r = 200"
    and "headers_get r ''Content-Type'' \<noteq> Some ''application/json''"
  shows "postChallenge e kp t useJson =
     (w0 @ [Push \<lparr>request = p, response = None\<rparr>,
            SetResponse r, SetFailure (makeFailure BAD_CONTENT_TYPE []),
            SetExpected (Str ''application/json'')] @
      (case headers_get r ''Content-Type'' of
         None \<Rightarrow> []
       | Some ct \<Rightarrow> if ct \<noteq> [] then [SetActual (Str ct)] else []),
      Returned None)"
  using assms fetched_truthy [of e kp t w0 c]
  by (simp add: submitted_def postChallenge_def failing_post spec_post_request_def Let_def
      split: if_splits)

lemma post_path_body_not_json:
  assumes "submitted e kp t useJson w0 c s p r" and "status r = 200"
    and "headers_get r ''Content-Type'' = Some ''application/json''" and "json r = None"
  shows "postChallenge e kp t useJson =
     (w0 @ [Push \<lparr>request = p, response = None\<rparr>, SetResponse r],
      Threw BodyNotJSON)"
  using assms fetched_truthy [of e kp t w0 c]
  by (simp add: submitted_def postChallenge_def failing_post spec_post_request_def Let_def
      split: if_splits)

lemma post_path_body_null:
  assumes "token_read e kp t useJson w0 c s p r b" and "get_prop b ''token'' = None"
  shows "postChallenge e kp t useJson =
     (w0 @ [Push \<lparr>request = p, response = None\<rparr>, SetResponse r],
      Threw TypeError)"
  using assms fetched_truthy [of e kp t w0 c]
  by (simp add: token_read_def submitted_def postChallenge_def failing_post
      spec_post_request_def Let_def get_prop_truthy split: if_splits)

lemma post_path_no_token:
  assumes "token_read e kp t useJson w0 c s p r b" and "get_prop b ''token'' = Some tk"
    and "\<not> truthy tk"
  shows "postChallenge e kp t useJson =
     (w0 @ [Push \<lparr>request = p, response = None\<rparr>,
            SetResponse r, SetFailure (makeFailure NO_TOKEN [])],
      Returned None)"
  using assms fetched_truthy [of e kp t w0 c]
  by (simp add: token_read_def submitted_def postChallenge_def failing_post
      spec_post_request_def Let_def get_prop_truthy split: if_splits)

lemma post_path_decode:
  assumes "token_read e kp t useJson w0 c s p r b" and "get_prop b ''token'' = Some tk"
    and "truthy tk" and "decode e tk = Inl err"
  shows "postChallenge e kp t useJson =
     (w0 @ [Push \<lparr>request = p, response = None\<rparr>,
            SetResponse r, SetFailure (makeFailure JWT_DECODE_FAILURE [(''error'', err)])],
      Returned None)"
  using assms fetched_truthy [of e kp t w0 c]
  by (simp add: token_read_def submitted_def postChallenge_def failing_post
      spec_post_request_def Let_def get_prop_truthy split: if_splits)

lemma post_path_not_json:
  assumes "token_read e kp t useJson w0 c s p r b" and "get_prop b ''token'' = Some tk"
    and "truthy tk" and "decode e tk = Inr j" and "\<not> truthy j \<or> \<not> typeof_object j"
  shows "postChallenge e kp t useJson =
     (w0 @ [Push \<lparr>request = p, response = None\<rparr>,
            SetResponse r, SetFailure (makeFailure JWT_NOT_JSON [])],
      Returned None)"
  using assms fetched_truthy [of e kp t w0 c]
  by (simp add: token_read_def submitted_def postChallenge_def failing_post
      spec_post_request_def Let_def get_prop_truthy split: if_splits)

lemma post_path_schema:
  assumes "token_read e kp t useJson w0 c s p r b" and "get_prop b ''token'' = Some tk"
    and "truthy tk" and "decode e tk = Inr j" and "truthy j" and "typeof_object j"
    and "validate e j \<noteq> []"
  shows "postChallenge e kp t useJson =
     (w0 @ [Push \<lparr>request = p, response = None\<rparr>,
            SetResponse r,
            SetFailure (makeFailure INVALID_JWT_SCHEMA
              [(''errors'', Str (join nl (validate e j)))])],
      Returned None)"
  using assms fetched_truthy [of e kp t w0 c]
  by (simp add: token_read_def submitted_def postChallenge_def failing_post
      spec_post_request_def Let_def get_prop_truthy split: if_splits)

lemma post_path_sub:
  assumes "token_read e kp t useJson w0 c s p r b" and "get_prop b ''token'' = Some tk"
    and "truthy tk" and "decode e tk = Inr j" and "truthy j" and "typeof_object j"
    and "validate e j = []"
  shows "postChallenge e kp t useJson =
     (if fromPublicKey e (field_of j ''sub'')
      then (w0 @ [Push \<lparr>request = p, response = None\<rparr>, SetResponse r],
            Returned (Some tk))
      else (w0 @ [Push \<lparr>request = p, response = None\<rparr>,
                  SetResponse r, SetFailure (makeFailure INVALID_JWT_SUB [])],
            Returned None))"
  using assms fetched_truthy [of e kp t w0 c]
  by (simp add: token_read_def submitted_def postChallenge_def failing_post
      spec_post_request_def Let_def get_prop_truthy split: if_splits)

section \<open>Exhaustive case rules and the shape of a run\<close>

lemma postChallenge_paths [case_names threw nothing sign invalid_url connection status
    content_type body_not_json body_null no_token decode not_json schema sub]:
  obtains w0 x where "getChallenge e kp t = (w0, Threw x)"
  | w0 where "getChallenge e kp t = (w0, Returned None)"
  | w0 c where "getChallenge e kp t = (w0, Returned (Some c))" "sign e c kp = None"
  | w0 c s where "getChallenge e kp t = (w0, Returned (Some c))" "sign e c kp = Some s"
      "spec_post_request e t s useJson = None"
  | w0 c s p where "getChallenge e kp t = (w0, Returned (Some c))" "sign e c kp = Some s"
      "spec_post_request e t s useJson = Some p" "fetch e p = None"
  | w0 c s p r where "submitted e kp t useJson w0 c s p r" "status r \<noteq> 200"
  | w0 c s p r where "submitted e kp t useJson w0 c s p r" "status r = 200"
      "headers_get r ''Content-Type'' \<noteq> Some ''application/json''"
  | w0 c s p r where "submitted e kp t useJson w0 c s p r" "status r = 200"
      "headers_get r ''Content-Type'' = Some ''application/json''" "json r = None"
  | w0 c s p r b where "token_read e kp t useJson w0 c s p r b" "get_prop b ''token'' = None"
  | w0 c s p r b tk where "token_read e kp t useJson w0 c s p r b"
      "get_prop b ''token'' = Some tk" "\<not> truthy tk"
  | w0 c s p r b tk err where "token_read e kp t useJson w0 c s p r b"
      "get_prop b ''token'' = Some tk" "truthy tk" "decode e tk = Inl err"
  | w0 c s p r b tk j where "token_read e kp t useJson w0 c s p r b"
      "get_prop b ''token'' = Some tk" "truthy tk" "decode e tk = Inr j"
      "\<not> truthy j \<or> \<not> typeof_object j"
  | w0 c s p r b tk j where "token_read e kp t useJson w0 c s p r b"
      "get_prop b ''token'' = Some tk" "truthy tk" "decode e tk = Inr j"
      "truthy j" "typeof_object j" "validate e j \<noteq> []"
  | w0 c s p r b tk j where "token_read e kp t useJson w0 c s p r b"
      "get_prop b ''token'' = Some tk" "truthy tk" "decode e tk = Inr j"
      "truthy j" "typeof_object j" "validate e j = []"
proof -
  obtain w0 got where g0: "getChallenge e kp t = (w0, got)"
    by (cases "getChallenge e kp t") auto
  show ?thesis
  proof (cases got)
    case (Threw x)
    with g0 that(1) show ?thesis by blast
  next
    case (Returned fetched)
    show ?thesis
    proof (cases fetched)
      case None
      with g0 Returned that(2) show ?thesis by blast
    next
      case (Some c)
      with g0 Returned have g: "getChallenge e kp t = (w0, Returned (Some c))" by simp
      show ?thesis
      proof (cases "sign e c kp")
        case None
        with g that(3) show ?thesis by blast
      next
        case s: (Some s)
        show ?thesis
        proof (cases "spec_post_request e t s useJson")
          case None
          with g s that(4) show ?thesis by blast
        next
          case p: (Some p)
          show ?thesis
          proof (cases "fetch e p")
            case None
            with g s p that(5) show ?thesis by blast
          next
            case (Some r)
            with g s p have sub: "submitted e kp t useJson w0 c s p r"
              by (simp add: submitted_def)
            show ?thesis
            proof (cases "status r = 200 \<and>
                headers_get r ''Content-Type'' = Some ''application/json''")
              case False
              with sub that(6,7) show ?thesis by blast
            next
              case ok: True
              show ?thesis
              proof (cases "json r")
                case None
                with sub ok that(8) show ?thesis by blast
              next
                case (Some b)
                with sub ok have tr: "token_read e kp t useJson w0 c s p r b"
                  by (simp add: token_read_def)
                show ?thesis
                proof (cases "get_prop b ''token''")
                  case None
                  with tr that(9) show ?thesis by blast
                next
                  case tk: (Some tk)
                  show ?thesis
                  proof (cases "truthy tk")
                    case False
                    with tr tk that(10) show ?thesis by blast
                  next
                    case tt: True
                    show ?thesis
                    proof (cases "decode e tk")
                      case (Inl err)
                      with tr tk tt that(11) show ?thesis by blast
                    next
                      case j: (Inr j)
                      show ?thesis
                      proof (cases "truthy j \<and> typeof_object j")
                        case False
                        with tr tk tt j that(12) show ?thesis by blast
                      next
                        case True
                        with tr tk tt j that(13,14) show ?thesis
                          by (cases "validate e j = []") blast+
                      qed
                    qed
                  qed
                qed
              qed
            qed
          qed
        qed
      qed
    qed
  qed
qed

lemma postChallenge_returns_token:
  assumes ret: "postChallenge e kp t useJson = (w, Returned (Some tk))"
  shows "\<exists>w0 c s p r b j. token_read e kp t useJson w0 c s p r b \<and>
           get_prop b ''token'' = Some tk \<and> truthy tk \<and> decode e tk = Inr j \<and>
           truthy j \<and> typeof_object j \<and> validate e j = [] \<and>
           fromPublicKey e (field_of j ''sub'') \<and>
           w = w0 @ [Push \<lparr>request = p, response = None\<rparr>, SetResponse r]"
proof (cases rule: postChallenge_paths [where t = t and e = e and kp = kp and useJson = useJson])
  case (threw w0 x)
  with ret show ?thesis by (simp add: post_path_threw)
next
  case (nothing w0)
  with ret show ?thesis by (simp add: post_path_nothing)
next
  case (sign w0 c)
  with ret show ?thesis by (simp add: post_path_sign)
next
  case (invalid_url w0 c s)
  with ret show ?thesis by (simp add: post_path_invalid_url)
next
  case (connection w0 c s p)
  with ret show ?thesis by (simp add: post_path_connection_error)
next
  case (status w0 c s p r)
  with ret show ?thesis by (simp add: post_path_status)
next
  case (content_type w0 c s p r)
  with ret show ?thesis by (simp add: post_path_content_type)
next
  case (body_not_json w0 c s p r)
  with ret show ?thesis by (simp add: post_path_body_not_json)
next
  case (body_null w0 c s p r b)
  with ret show ?thesis by (simp add: post_path_body_null)
next
  case (no_token w0 c s p r b tk')
  with ret show ?thesis by (simp add: post_path_no_token)
next
  case (decode w0 c s p r b tk' err)
  with ret show ?thesis by (simp add: post_path_decode)
next
  case (not_json w0 c s p r b tk' j)
  with ret post_path_not_json [OF not_json] show ?thesis by simp
next
  case (schema w0 c s p r b tk' j)
  with ret post_path_schema [OF schema] show ?thesis by simp
next
  case (sub w0 c s p r b tk' j)
  from ret post_path_sub [OF sub] have
    "fromPublicKey e (field_of j ''sub'') \<and> tk' = tk \<and>
     w = w0 @ [Push \<lparr>request = p, response = None\<rparr>, SetResponse r]"
    by (auto split: if_splits)
  with sub show ?thesis by blast
qed

lemma fetched_writes:
  assumes "getChallenge e kp t = (w0, Returned (Some c))"
  shows "failures w0 = []" and "length (pushes w0) = 1"
  using getChallenge_returns_challenge [OF assms] by auto

lemma postChallenge_trace_shape:
  "length (failures (fst (postChallenge e kp t useJson))) \<le> 1 \<and>
   pushes (after_failure (fst (postChallenge e kp t useJson))) = []"
proof (cases rule: postChallenge_paths [where t = t and e = e and kp = kp and useJson = useJson])
  case (threw w0 x)
  with getChallenge_trace_shape [of e kp t] show ?thesis
    by (simp add: post_path_threw)
next
  case (nothing w0)
  with getChallenge_trace_shape [of e kp t] show ?thesis
    by (simp add: post_path_nothing)
next
  case (sign w0 c)
  with getChallenge_trace_shape [of e kp t] show ?thesis
    by (simp add: post_path_sign)
next
  case (invalid_url w0 c s)
  with getChallenge_trace_shape [of e kp t] show ?thesis
    by (simp add: post_path_invalid_url)
next
  case (connection w0 c s p)
  show ?thesis
    using fetched_writes [OF connection(1)]
    by (simp add: post_path_connection_error [OF connection] failures_append
        after_failure_append)
next
  case (status w0 c s p r)
  from status(1) have g: "getChallenge e kp t = (w0, Returned (Some c))"
    by (simp add: submitted_def)
  show ?thesis
    using fetched_writes [OF g]
    by (simp add: post_path_status [OF status] failures_append after_failure_append)
next
  case (content_type w0 c s p r)
  from content_type(1) have g: "getChallenge e kp t = (w0, Returned (Some c))"
    by (simp add: submitted_def)
  show ?thesis
    using fetched_writes [OF g]
    by (simp add: post_path_content_type [OF content_type] failures_append after_failure_append
        pushes_append split: option.split)
next
  case (body_not_json w0 c s p r)
  from body_not_json(1) have g: "getChallenge e kp t = (w0, Returned (Some c))"
    by (simp add: submitted_def)
  show ?thesis
    using fetched_writes [OF g]
    by (simp add: post_path_body_not_json [OF body_not_json] failures_append after_failure_append)
next
  case (body_null w0 c s p r b)
  from body_null(1) have g: "getChallenge e kp t = (w0, Returned (Some c))"
    by (simp add: token_read_def submitted_def)
  show ?thesis
    using fetched_writes [OF g]
    by (simp add: post_path_body_null [OF body_null] failures_append after_failure_append)
next
  case (no_token w0 c s p r b tk)
  from no_token(1) have g: "getChallenge e kp t = (w0, Returned (Some c))"
    by (simp add: token_read_def submitted_def)
  show ?thesis
    using fetched_writes [OF g]
    by (simp add: post_path_no_token [OF no_token] failures_append after_failure_append)
next
  case (decode w0 c s p r b tk err)
  from decode(1) have g: "getChallenge e kp t = (w0, Returned (Some c))"
    by (simp add: token_read_def submitted_def)
  show ?thesis
    using fetched_writes [OF g]
    by (simp add: post_path_decode [OF decode] failures_append after_failure_append)
next
  case (not_json w0 c s p r b tk j)
  from not_json(1) have g: "getChallenge e kp t = (w0, Returned (Some c))"
    by (simp add: token_read_def submitted_def)
  show ?thesis
    using fetched_writes [OF g]
    by (simp add: post_path_not_json [OF not_json] failures_append after_failure_append)
next
  case (schema w0 c s p r b tk j)
  from schema(1) have g: "getChallenge e kp t = (w0, Returned (Some c))"
    by (simp add: token_read_def submitted_def)
  show ?thesis
    using fetched_writes [OF g]
    by (simp add: post_path_schema [OF schema] failures_append after_failure_append)
next
  case (sub w0 c s p r b tk j)
  from sub(1) have g: "getChallenge e kp t = (w0, Returned (Some c))"
    by (simp add: token_read_def submitted_def)
  show ?thesis
    using fetched_writes [OF g]
    by (simp add: post_path_sub [OF sub] failures_append after_failure_append)
qed

lemma failure_run:
  "failure (run w r) = (if failures w = [] then failure r else Some (last (failures w)))"
  unfolding run_def
proof (induction w arbitrary: r)
  case Nil
  show ?case by simp
next
  case (Cons x w)
  show ?case by (cases x) (simp_all add: Cons.IH)
qed

section \<open>The example runs\<close>

lemmas example_defs = client_def stellar_toml_def json_response_def typed_response_def
  challenge_with_def server_def challenge_body_def token_body_def jwt_payload_def
  good_server_def sequence_server_def get_server_def post_server_def

lemma requested_example:
  "requested (server g a d j errs keys) client stellar_toml challenge_request"
  by (simp add: requested_def spec_get_request_def Request_new_def field_of_def
      server_def client_def stellar_toml_def challenge_request_def)

lemma fetch_example:
  "fetch (server g a d j errs keys) challenge_request = g"
  "fetch (server g a d j errs keys) (submission_request useJson) = a"
  by (simp_all add: server_def challenge_request_def submission_request_def)

lemma body_read_server:
  "body_read (server (Some (json_response 200 b)) a d j errs keys) client stellar_toml
     challenge_request (json_response 200 b)"
  by (simp add: body_read_def requested_example fetch_example) (simp add: json_response_def)

lemma body_read_example:
  "body_read (sequence_server q) client stellar_toml challenge_request
     (json_response 200 challenge_body)"
  unfolding sequence_server_def by (rule body_read_server)

lemma good_server_eq: "good_server = sequence_server ''0''"
  by (simp add: good_server_def sequence_server_def)

lemma getChallenge_example:
  "getChallenge (sequence_server q) client stellar_toml =
     (if q = ''0''
      then ([Push \<lparr>request = challenge_request, response = None\<rparr>,
             SetResponse (json_response 200 challenge_body)],
            Returned (Some (challenge_with q)))
      else ([Push \<lparr>request = challenge_request, response = None\<rparr>,
             SetResponse (json_response 200 challenge_body),
             SetFailure (makeFailure NONZERO_SEQUENCE_NUMBER [])],
            Returned None))"
proof -
  have h: "json (json_response 200 challenge_body) = Some challenge_body"
    "get_prop challenge_body ''transaction'' = Some (Str ''AAAA'')"
    "truthy (Str ''AAAA'')"
    "fromXDR (sequence_server q) (Str ''AAAA'') (field_of stellar_toml ''NETWORK_PASSPHRASE'')
       = Some (IsTransaction (challenge_with q))"
    by (simp_all add: example_defs)
  show ?thesis
    using path_sequence [OF body_read_example h] by (simp add: challenge_with_def)
qed

lemma getChallenge_post_server:
  "getChallenge (post_server a j) client stellar_toml =
     (fetch_writes, Returned (Some (challenge_with ''0'')))"
proof -
  have br: "body_read (post_server a j) client stellar_toml challenge_request
      (json_response 200 challenge_body)"
    unfolding post_server_def by (rule body_read_server)
  have h: "json (json_response 200 challenge_body) = Some challenge_body"
    "get_prop challenge_body ''transaction'' = Some (Str ''AAAA'')"
    "truthy (Str ''AAAA'')"
    "fromXDR (post_server a j) (Str ''AAAA'') (field_of stellar_toml ''NETWORK_PASSPHRASE'')
       = Some (IsTransaction (challenge_with ''0''))"
    by (simp_all add: example_defs)
  show ?thesis
    using path_sequence [OF br h] by (simp add: challenge_with_def fetch_writes_def)
qed

lemma sign_example:
  "sign (post_server a j) (challenge_with ''0'') client = Some signed_challenge"
  by (simp add: example_defs signed_challenge_def)

lemma post_request_example:
  "spec_post_request (post_server a j) stellar_toml signed_challenge useJson =
     Some (submission_request useJson)"
  by (simp add: spec_post_request_def Request_new_def field_of_def submission_request_def
      post_server_def server_def stellar_toml_def)

lemma submitted_example:
  "submitted (post_server (Some r) j) client stellar_toml useJson fetch_writes
     (challenge_with ''0'') signed_challenge (submission_request useJson) r"
  by (simp add: submitted_def getChallenge_post_server sign_example post_request_example)
     (simp add: post_server_def fetch_example)

lemma token_read_example:
  "token_read (post_server (Some (json_response 200 b)) j) client stellar_toml useJson
     fetch_writes (challenge_with ''0'') signed_challenge (submission_request useJson)
     (json_response 200 b) b"
  by (simp add: token_read_def submitted_example) (simp add: json_response_def)

lemma good_server_post:
  "good_server = post_server (Some (json_response 200 token_body)) (Inr jwt_payload)"
  by (simp add: good_server_def post_server_def)

lemma get_server_read:
  "requested (get_server a) client stellar_toml challenge_request"
  "fetch (get_server a) challenge_request = a"
  unfolding get_server_def by (rule requested_example, rule fetch_example)

lemma postChallenge_good_server:
  "postChallenge good_server client stellar_toml useJson =
     (fetch_writes @
        [Push \<lparr>request = submission_request useJson, response = None\<rparr>,
         SetResponse (json_response 200 token_body)],
      Returned (Some (Str ''h.p.s'')))"
proof -
  have h: "get_prop token_body ''token'' = Some (Str ''h.p.s'')" "truthy (Str ''h.p.s'')"
    "decode (post_server (Some (json_response 200 token_body)) (Inr jwt_payload)) (Str ''h.p.s'')
       = Inr jwt_payload"
    "truthy jwt_payload" "typeof_object jwt_payload"
    "validate (post_server (Some (json_response 200 token_body)) (Inr jwt_payload)) jwt_payload = []"
    by (simp_all add: example_defs)
  have k: "fromPublicKey (post_server (Some (json_response 200 token_body)) (Inr jwt_payload))
             (field_of jwt_payload ''sub'')"
    by (simp add: example_defs field_of_def)
  show ?thesis
    using post_path_sub [OF token_read_example h] k
    by (simp add: good_server_post)
qed

lemma postChallenge_pushes_post:
  assumes g: "getChallenge e kp t = (w0, Returned (Some c))" and s: "sign e c kp = Some s"
    and p: "spec_post_request e t s useJson = Some p"
  shows "\<exists>w. fst (postChallenge e kp t useJson) = w0 @ Push \<lparr>request = p, response = None\<rparr> # w"
proof (cases "fetch e p")
  case None
  from post_path_connection_error [OF g s p None] show ?thesis by simp
next
  case (Some r)
  with g s p have sub: "submitted e kp t useJson w0 c s p r"
    by (simp add: submitted_def)
  show ?thesis
  proof (cases rule: postChallenge_paths [where t = t and e = e and kp = kp and useJson = useJson])
    case (threw w0' x)
    with g show ?thesis by simp
  next
    case (nothing w0')
    with g show ?thesis by simp
  next
    case (sign w0' c')
    with g s show ?thesis by simp
  next
    case (invalid_url w0' c' s')
    with g s p show ?thesis by simp
  next
    case (connection w0' c' s' p')
    with g s p Some show ?thesis by simp
  next
    case (status w0' c' s' p' r')
    from status(1) g s p have "w0' = w0" "p' = p" by (simp_all add: submitted_def)
    with post_path_status [OF status] show ?thesis by simp
  next
    case (content_type w0' c' s' p' r')
    from content_type(1) g s p have "w0' = w0" "p' = p" by (simp_all add: submitted_def)
    with post_path_content_type [OF content_type] show ?thesis by simp
  next
    case (body_not_json w0' c' s' p' r')
    from body_not_json(1) g s p have "w0' = w0" "p' = p" by (simp_all add: submitted_def)
    with post_path_body_not_json [OF body_not_json] show ?thesis by simp
  next
    case (body_null w0' c' s' p' r' b)
    from body_null(1) g s p have "w0' = w0" "p' = p"
      by (simp_all add: token_read_def submitted_def)
    with post_path_body_null [OF body_null] show ?thesis by simp
  next
    case (no_token w0' c' s' p' r' b tk)
    from no_token(1) g s p have "w0' = w0" "p' = p"
      by (simp_all add: token_read_def submitted_def)
    with post_path_no_token [OF no_token] show ?thesis by simp
  next
    case (decode w0' c' s' p' r' b tk err)
    from decode(1) g s p have "w0' = w0" "p' = p"
      by (simp_all add: token_read_def submitted_def)
    with post_path_decode [OF decode] show ?thesis by simp
  next
    case (not_json w0' c' s' p' r' b tk j)
    from not_json(1) g s p have "w0' = w0" "p' = p"
      by (simp_all add: token_read_def submitted_def)
    with post_path_not_json [OF not_json] show ?thesis by simp
  next
    case (schema w0' c' s' p' r' b tk j)
    from schema(1) g s p have "w0' = w0" "p' = p"
      by (simp_all add: token_read_def submitted_def)
    with post_path_schema [OF schema] show ?thesis by simp
  next
    case (sub w0' c' s' p' r' b tk j)
    from sub(1) g s p have "w0' = w0" "p' = p"
      by (simp_all add: token_read_def submitted_def)
    with post_path_sub [OF sub] show ?thesis by simp
  qed
qed

lemma post_request_built:
  assumes "spec_post_request e t s useJson = Some p"
  shows "requestURL e (field_of t ''WEB_AUTH_ENDPOINT'') = Some (url p)"
    and "method p = ''POST''"
  using assms
  by (auto simp: spec_post_request_def Request_new_def split: if_splits option.splits)

lemma get_request_built:
  assumes "spec_get_request e kp t = Some q"
  shows "method q = ''GET''"
  using assms
  by (auto simp: spec_get_request_def Request_new_def split: option.splits)

section \<open>Claims about getChallenge\<close>

text \<open>
  Claim C8. When the metadata is present but its \<open>WEB_AUTH_ENDPOINT\<close> is missing (or
  otherwise falsy), \<open>getChallenge\<close> returns nothing after a single write: the failure
  named "no WEB_AUTH_ENDPOINT". It pushes no network call, and the Result it leaves is
  the one it was given with only \<open>failure\<close> changed.
\<close>

theorem getChallenge_missing_endpoint:
  assumes "truthy tomlObj" and "\<not> truthy (field_of tomlObj ''WEB_AUTH_ENDPOINT'')"
  shows "getChallenge e kp tomlObj =
           ([SetFailure (makeFailure NO_WEB_AUTH_ENDPOINT [])], Returned None) \<and>
         name (makeFailure NO_WEB_AUTH_ENDPOINT []) = ''no WEB_AUTH_ENDPOINT'' \<and>
         pushes (fst (getChallenge e kp tomlObj)) = [] \<and>
         run (fst (getChallenge e kp tomlObj)) r =
           r\<lparr>failure := Some (makeFailure NO_WEB_AUTH_ENDPOINT [])\<rparr>"
  using assms
  by (simp add: path_no_endpoint name_makeFailure NO_WEB_AUTH_ENDPOINT_def run_def)

theorem getChallenge_missing_endpoint_witness:
  "truthy (Obj [(''NETWORK_PASSPHRASE'', Str ''Test'')]) \<and>
   \<not> truthy (field_of (Obj [(''NETWORK_PASSPHRASE'', Str ''Test'')]) ''WEB_AUTH_ENDPOINT'') \<and>
   networkCalls (run (fst (getChallenge good_server client
       (Obj [(''NETWORK_PASSPHRASE'', Str ''Test'')])))
      \<lparr>networkCalls = [], failure = None, expected = Some (Num 1), actual = None\<rparr>) = [] \<and>
   map_option name (failure (run (fst (getChallenge good_server client
       (Obj [(''NETWORK_PASSPHRASE'', Str ''Test'')])))
      \<lparr>networkCalls = [], failure = None, expected = Some (Num 1), actual = None\<rparr>)) =
     Some ''no WEB_AUTH_ENDPOINT'' \<and>
   expected (run (fst (getChallenge good_server client
       (Obj [(''NETWORK_PASSPHRASE'', Str ''Test'')])))
      \<lparr>networkCalls = [], failure = None, expected = Some (Num 1), actual = None\<rparr>) =
     Some (Num 1)"
  using getChallenge_missing_endpoint
    [of "Obj [(''NETWORK_PASSPHRASE'', Str ''Test'')]" good_server client
      "\<lparr>networkCalls = [], failure = None, expected = Some (Num 1), actual = None\<rparr>"]
  by (simp add: field_of_def name_makeFailure run_def NO_WEB_AUTH_ENDPOINT_def)

text \<open>
  Claim C4. Once the envelope has decoded to an ordinary transaction, \<open>getChallenge\<close>
  returns it exactly when its \<open>sequence\<close> is the string "0"; every other string, the
  empty (falsy) one included, gives the NONZERO_SEQUENCE_NUMBER failure.
\<close>

theorem getChallenge_sequence_exact:
  assumes "body_read e kp t q r" and "json r = Some b"
    and "get_prop b ''transaction'' = Some v" and "truthy v"
    and "fromXDR e v (field_of t ''NETWORK_PASSPHRASE'') = Some (IsTransaction c)"
  shows "(sequence c = ''0'' \<longrightarrow>
            getChallenge e kp t =
              ([Push \<lparr>request = q, response = None\<rparr>, SetResponse r],
               Returned (Some c))) \<and>
         (sequence c \<noteq> ''0'' \<longrightarrow>
            getChallenge e kp t =
              ([Push \<lparr>request = q, response = None\<rparr>, SetResponse r,
                SetFailure (makeFailure NONZERO_SEQUENCE_NUMBER [])],
               Returned None))"
  using path_sequence [OF assms] by simp

theorem getChallenge_sequence_exact_witness:
  "snd (getChallenge (sequence_server ''0'') client stellar_toml) =
     Returned (Some (challenge_with ''0'')) \<and>
   snd (getChallenge (sequence_server ''1'') client stellar_toml) = Returned None \<and>
   map name (failures (fst (getChallenge (sequence_server ''1'') client stellar_toml))) =
     [''non-zero sequence number''] \<and>
   map name (failures (fst (getChallenge (sequence_server '''') client stellar_toml))) =
     [''non-zero sequence number''] \<and>
   map name (failures (fst (getChallenge (sequence_server ''00'') client stellar_toml))) =
     [''non-zero sequence number'']"
proof -
  have h: "json (json_response 200 challenge_body) = Some challenge_body"
    "get_prop challenge_body ''transaction'' = Some (Str ''AAAA'')"
    "truthy (Str ''AAAA'')"
    "\<And>q. fromXDR (sequence_server q) (Str ''AAAA'') (field_of stellar_toml ''NETWORK_PASSPHRASE'')
       = Some (IsTransaction (challenge_with q))"
    by (simp_all add: example_defs)
  note w = getChallenge_sequence_exact [OF body_read_example h(1) h(2) h(3) h(4)]
  show ?thesis
    using w [of "''0''"] w [of "''1''"] w [of "''''"] w [of "''00''"]
    by (simp add: challenge_with_def name_makeFailure NONZERO_SEQUENCE_NUMBER_def)
qed

text \<open>
  Claim C10. Whenever \<open>getChallenge\<close> returns a challenge to \<open>postChallenge\<close>, reading
  \<open>WEB_AUTH_ENDPOINT\<close> off the metadata succeeds and gives a truthy value (so neither
  missing nor empty), and the challenge is the ordinary transaction the envelope decoded
  to, not a fee bump. In \<open>postChallenge\<close> the signing step is then applied to that
  transaction and can only fail inside the signing library; the POST request is built
  from that endpoint and can only fail by the URL parser rejecting it; otherwise the POST
  request, with the URL of the endpoint, is pushed right after the writes of the fetch.
  In particular \<open>postChallenge\<close> never leaves by the TypeError of reading the endpoint off
  missing metadata.
\<close>

theorem fetched_challenge_fits_submission:
  assumes "getChallenge e kp t = (w0, Returned (Some c))"
  shows "get_prop t ''WEB_AUTH_ENDPOINT'' = Some (field_of t ''WEB_AUTH_ENDPOINT'') \<and>
         truthy (field_of t ''WEB_AUTH_ENDPOINT'') \<and>
         field_of t ''WEB_AUTH_ENDPOINT'' \<noteq> Str [] \<and>
         field_of t ''WEB_AUTH_ENDPOINT'' \<noteq> Undefined \<and>
         spec_decoded e kp t = Some (IsTransaction c) \<and>
         (sign e c kp = None \<longrightarrow> postChallenge e kp t useJson = (w0, Threw SignError)) \<and>
         (\<forall>s. sign e c kp = Some s \<longrightarrow>
            (spec_post_request e t s useJson = None \<longrightarrow>
               postChallenge e kp t useJson = (w0, Threw InvalidURL)) \<and>
            (\<forall>p. spec_post_request e t s useJson = Some p \<longrightarrow>
               requestURL e (field_of t ''WEB_AUTH_ENDPOINT'') = Some (url p) \<and>
               method p = ''POST'' \<and>
               (\<exists>w. fst (postChallenge e kp t useJson) =
                      w0 @ Push \<lparr>request = p, response = None\<rparr> # w))) \<and>
         postChallenge e kp t useJson \<noteq> (w0, Threw TypeError)"
proof -
  from getChallenge_returns_challenge [OF assms] obtain q r b v where
    h: "body_read e kp t q r" "json r = Some b" "get_prop b ''transaction'' = Some v"
       "fromXDR e v (field_of t ''NETWORK_PASSPHRASE'') = Some (IsTransaction c)"
    by blast
  from h(1) have t: "truthy t" and ep: "truthy (field_of t ''WEB_AUTH_ENDPOINT'')"
    and q: "spec_get_request e kp t = Some q" and r: "fetch e q = Some r"
    by (simp_all add: body_read_def requested_def)
  have 1: "spec_decoded e kp t = Some (IsTransaction c)"
    using q r h(2-4)
    by (simp add: spec_decoded_def spec_transaction_field_def spec_body_def spec_response_def
        field_of_def)
  have 2: "field_of t ''WEB_AUTH_ENDPOINT'' \<noteq> Str []"
    "field_of t ''WEB_AUTH_ENDPOINT'' \<noteq> Undefined"
    using ep by auto
  have 3: "get_prop t ''WEB_AUTH_ENDPOINT'' = Some (field_of t ''WEB_AUTH_ENDPOINT'')"
    using t by (simp add: get_prop_truthy)
  have 4: "sign e c kp = None \<longrightarrow> postChallenge e kp t useJson = (w0, Threw SignError)"
    using post_path_sign [OF assms] by simp
  have 5: "spec_post_request e t s useJson = None \<longrightarrow>
             postChallenge e kp t useJson = (w0, Threw InvalidURL)"
    if "sign e c kp = Some s" for s
    using post_path_invalid_url [OF assms that] by simp
  have 6: "requestURL e (field_of t ''WEB_AUTH_ENDPOINT'') = Some (url p) \<and>
           method p = ''POST'' \<and>
           (\<exists>w. fst (postChallenge e kp t useJson) =
                  w0 @ Push \<lparr>request = p, response = None\<rparr> # w)"
    if "sign e c kp = Some s" "spec_post_request e t s useJson = Some p" for s p
    using post_request_built [OF that(2)] postChallenge_pushes_post [OF assms that] by simp
  have 7: "postChallenge e kp t useJson \<noteq> (w0, Threw TypeError)"
  proof (cases "sign e c kp")
    case None
    with 4 show ?thesis by simp
  next
    case (Some s)
    show ?thesis
    proof (cases "spec_post_request e t s useJson")
      case None
      with 5 [OF Some] show ?thesis by simp
    next
      case p: (Some p)
      from 6 [OF Some p] obtain w where
        "fst (postChallenge e kp t useJson) = w0 @ Push \<lparr>request = p, response = None\<rparr> # w"
        by blast
      then show ?thesis by auto
    qed
  qed
  from 1 2 3 4 5 6 7 ep show ?thesis by blast
qed

theorem fetched_challenge_fits_submission_witness:
  "getChallenge good_server client stellar_toml =
     (fetch_writes, Returned (Some (challenge_with ''0''))) \<and>
   field_of stellar_toml ''WEB_AUTH_ENDPOINT'' = Str ''https://x/auth'' \<and>
   spec_decoded good_server client stellar_toml = Some (IsTransaction (challenge_with ''0'')) \<and>
   sign good_server (challenge_with ''0'') client = Some signed_challenge \<and>
   spec_post_request good_server stellar_toml signed_challenge False =
     Some (submission_request False) \<and>
   url (submission_request False) = ''https://x/auth'' \<and>
   pushes (fst (postChallenge good_server client stellar_toml False)) =
     [\<lparr>request = challenge_request, response = None\<rparr>,
      \<lparr>request = submission_request False, response = None\<rparr>] \<and>
   postChallenge good_server client stellar_toml False \<noteq> (fetch_writes, Threw TypeError)"
proof -
  have g: "getChallenge good_server client stellar_toml =
     (fetch_writes, Returned (Some (challenge_with ''0'')))"
    by (simp add: good_server_post getChallenge_post_server)
  have s: "sign good_server (challenge_with ''0'') client = Some signed_challenge"
    by (simp add: good_server_post sign_example)
  have p: "spec_post_request good_server stellar_toml signed_challenge False =
     Some (submission_request False)"
    by (simp add: good_server_post post_request_example)
  have u: "url (submission_request False) = ''https://x/auth''"
    by (simp add: submission_request_def)
  have f: "field_of stellar_toml ''WEB_AUTH_ENDPOINT'' = Str ''https://x/auth''"
    by (simp add: field_of_def stellar_toml_def)
  have w: "pushes (fst (postChallenge good_server client stellar_toml False)) =
     [\<lparr>request = challenge_request, response = None\<rparr>,
      \<lparr>request = submission_request False, response = None\<rparr>]"
    by (simp add: postChallenge_good_server fetch_writes_def)
  from fetched_challenge_fits_submission [OF g, of False] have
    "spec_decoded good_server client stellar_toml = Some (IsTransaction (challenge_with ''0''))"
    and "postChallenge good_server client stellar_toml False \<noteq> (fetch_writes, Threw TypeError)"
    by blast+
  with g s p u f w show ?thesis by blast
qed

text \<open>
  The order of the checks. Provided that the URL parser accepts the GET request when it
  comes to be built, and that the body of the GET response, when the first five checks
  pass and it is read, parses as JSON to a value other than \<open>null\<close>, \<open>getChallenge\<close>
  returns rather than throws, the failure it writes is the one of the first violated
  check in the specified order (none when no check is violated, and then a challenge is
  returned), and the nine failures have distinct names.
\<close>

lemma observed:
  assumes "body_read e kp t q r" and "json r = Some b" and "get_prop b ''transaction'' = Some v"
  shows "spec_transaction_field e kp t = v"
    and "spec_decoded e kp t = fromXDR e v (field_of t ''NETWORK_PASSPHRASE'')"
    and "spec_response e kp t = Some r"
  using assms
  by (simp_all add: body_read_def requested_def spec_decoded_def spec_transaction_field_def
      spec_body_def spec_response_def field_of_def)

lemma names_distinct: "distinct (map (\<lambda>c. name (spec_failure c)) spec_order)"
  by (simp add: spec_order_def NO_TOML_def NO_WEB_AUTH_ENDPOINT_def CONNECTION_ERROR_def
      UNEXPECTED_STATUS_CODE_def BAD_CONTENT_TYPE_def NO_TRANSACTION_def
      DESERIALIZATION_FAILED_def INVALID_TRANSACTION_TYPE_def NONZERO_SEQUENCE_NUMBER_def)

lemmas first_defs = spec_first_violation_def spec_order_def requested_def spec_response_def

lemma checks_in_order:
  assumes built:
    "truthy t \<Longrightarrow> truthy (field_of t ''WEB_AUTH_ENDPOINT'') \<Longrightarrow> spec_get_request e kp t \<noteq> None"
  and readable:
    "list_all (\<lambda>c. \<not> spec_violated e kp t c) (take 5 spec_order) \<Longrightarrow> body_parses e kp t"
  shows "(\<exists>w v. getChallenge e kp t = (w, Returned v) \<and>
            map name (failures w) =
              (case spec_first_violation e kp t of
                 None \<Rightarrow> []
               | Some c \<Rightarrow> [name (spec_failure c)]) \<and>
            (v = None \<longleftrightarrow> spec_first_violation e kp t \<noteq> None)) \<and>
         distinct (map (\<lambda>c. name (spec_failure c)) spec_order)"
proof (intro conjI names_distinct)
  show "\<exists>w v. getChallenge e kp t = (w, Returned v) \<and>
            map name (failures w) =
              (case spec_first_violation e kp t of
                 None \<Rightarrow> []
               | Some c \<Rightarrow> [name (spec_failure c)]) \<and>
            (v = None \<longleftrightarrow> spec_first_violation e kp t \<noteq> None)"
  proof (cases rule: getChallenge_paths [where t = t and e = e and kp = kp])
    case no_toml
    then have "spec_first_violation e kp t = Some MetadataAbsent"
      by (simp add: first_defs)
    with path_no_toml [OF no_toml, of e kp] show ?thesis
      by (simp add: name_makeFailure)
  next
    case no_endpoint
    then have "spec_first_violation e kp t = Some EndpointAbsent"
      by (simp add: first_defs)
    with path_no_endpoint [OF no_endpoint, of e kp] show ?thesis
      by (simp add: name_makeFailure)
  next
    case invalid_url
    with built show ?thesis by simp
  next
    case (connection q)
    then have "spec_first_violation e kp t = Some TransportFailure"
      by (simp add: first_defs)
    with path_connection_error [OF connection] show ?thesis
      by (simp add: name_makeFailure)
  next
    case (status q r)
    then have "spec_first_violation e kp t = Some StatusNot200"
      by (simp add: first_defs)
    with path_status [OF status] show ?thesis
      by (simp add: name_makeFailure)
  next
    case (content_type q r)
    then have "spec_first_violation e kp t = Some BadContentType"
      by (simp add: first_defs)
    with path_content_type [OF content_type] show ?thesis
      by (simp add: name_makeFailure split: option.splits)
  next
    case (body_not_json q r)
    then have "list_all (\<lambda>c. \<not> spec_violated e kp t c) (take 5 spec_order)"
      by (simp add: spec_order_def body_read_def requested_def spec_response_def)
    from readable [OF this] body_not_json show ?thesis
      by (simp add: body_parses_def spec_body_def spec_response_def body_read_def requested_def)
  next
    case (body_null q r b)
    then have "list_all (\<lambda>c. \<not> spec_violated e kp t c) (take 5 spec_order)"
      by (simp add: spec_order_def body_read_def requested_def spec_response_def)
    from readable [OF this] body_null show ?thesis
      by (simp add: body_parses_def spec_body_def spec_response_def body_read_def requested_def)
  next
    case (no_transaction q r b v)
    note ob = observed [OF no_transaction(1-3)]
    from no_transaction ob have "spec_first_violation e kp t = Some TransactionMissing"
      by (simp add: first_defs body_read_def)
    with path_no_transaction [OF no_transaction] show ?thesis
      by (simp add: name_makeFailure)
  next
    case (deserialization q r b v)
    note ob = observed [OF deserialization(1-3)]
    from deserialization ob have "spec_first_violation e kp t = Some DecodeFailure"
      by (simp add: first_defs body_read_def)
    with path_deserialization [OF deserialization] show ?thesis
      by (simp add: name_makeFailure)
  next
    case (fee_bump q r b v fb)
    note ob = observed [OF fee_bump(1-3)]
    from fee_bump ob have "spec_first_violation e kp t = Some FeeBumpType"
      by (simp add: first_defs body_read_def)
    with path_fee_bump [OF fee_bump] show ?thesis
      by (simp add: name_makeFailure)
  next
    case (sequence q r b v c)
    note ob = observed [OF sequence(1-3)]
    from sequence ob have
      "spec_first_violation e kp t =
         (if sequence c = ''0'' then None else Some NonzeroSequence)"
      by (simp add: first_defs body_read_def)
    with path_sequence [OF sequence] show ?thesis
      by (simp add: name_makeFailure)
  qed
qed

text \<open>
  Claim C1. The claim is that every violated check gives its failure and an early
  return, and that no exception ever leaves \<open>getChallenge\<close>. The code breaks the second
  half. Against a server that answers the GET with status 200, the JSON content type
  and a body that is not JSON, \<open>getChallenge\<close> throws after the two writes of the
  fetch, and \<open>result.failure\<close> is never assigned; the same happens, with a TypeError,
  when the body is the JSON value \<open>null\<close>; and with an endpoint that the URL parser
  rejects it throws before any write.
\<close>

theorem getChallenge_throws:
  "getChallenge (get_server (Some (typed_response (Some ''application/json'')))) client
     stellar_toml =
     ([Push \<lparr>request = challenge_request, response = None\<rparr>,
       SetResponse (typed_response (Some ''application/json''))],
      Threw BodyNotJSON) \<and>
   failures (fst (getChallenge (get_server (Some (typed_response (Some ''application/json''))))
     client stellar_toml)) = [] \<and>
   getChallenge (get_server (Some (json_response 200 Null))) client stellar_toml =
     ([Push \<lparr>request = challenge_request, response = None\<rparr>,
       SetResponse (json_response 200 Null)],
      Threw TypeError) \<and>
   getChallenge good_server client broken_toml = ([], Threw InvalidURL)"
proof -
  have a: "body_read (get_server (Some (typed_response (Some ''application/json'')))) client
          stellar_toml challenge_request (typed_response (Some ''application/json''))"
    by (simp add: body_read_def get_server_read) (simp add: typed_response_def)
  have b: "body_read (get_server (Some (json_response 200 Null))) client
          stellar_toml challenge_request (json_response 200 Null)"
    unfolding get_server_def by (rule body_read_server)
  have j: "json (typed_response (Some ''application/json'')) = None"
    "json (json_response 200 Null) = Some Null" "get_prop Null ''transaction'' = None"
    by (simp_all add: typed_response_def json_response_def)
  have u: "truthy broken_toml" "truthy (field_of broken_toml ''WEB_AUTH_ENDPOINT'')"
    "spec_get_request good_server client broken_toml = None"
    by (simp_all add: broken_toml_def field_of_def spec_get_request_def Request_new_def
        good_server_def server_def)
  show ?thesis
    using path_body_not_json [OF a j(1)] path_body_null [OF b j(2) j(3)]
      path_invalid_url [OF u]
    by simp
qed

section \<open>Claims about the catalogs\<close>

text \<open>
  Claim C6, amended. The POST-phase catalog consists of its five own entries followed by
  the entries of the GET-phase catalog themselves: the same keys bound to the same
  references, so the GET-phase kinds are shared objects, not copies. All fourteen keys
  are distinct and refer to fourteen distinct objects.
\<close>

theorem postChallengeFailureModes_shares_entries:
  "drop 5 postChallengeFailureModes = getChallengeFailureModes \<and>
   map fst (take 5 postChallengeFailureModes) =
     [''NO_TOKEN'', ''JWT_DECODE_FAILURE'', ''JWT_NOT_JSON'', ''INVALID_JWT_SCHEMA'',
      ''INVALID_JWT_SUB''] \<and>
   map fst getChallengeFailureModes =
     [''NO_TOML'', ''NO_WEB_AUTH_ENDPOINT'', ''CONNECTION_ERROR'', ''UNEXPECTED_STATUS_CODE'',
      ''BAD_CONTENT_TYPE'', ''NO_TRANSACTION'', ''DESERIALIZATION_FAILED'',
      ''INVALID_TRANSACTION_TYPE'', ''NONZERO_SEQUENCE_NUMBER''] \<and>
   distinct (map fst postChallengeFailureModes) \<and>
   distinct (map snd postChallengeFailureModes) \<and>
   length failure_store = 14"
  by (simp add: module_defs)

text \<open>
  Claim C6 as stated fails: the entry \<open>CONNECTION_ERROR\<close> of the POST-phase catalog is
  the very object of the GET-phase catalog.
\<close>

theorem postChallengeFailureModes_independent_counterexample:
  "map_of postChallengeFailureModes ''CONNECTION_ERROR'' =
     map_of getChallengeFailureModes ''CONNECTION_ERROR'' \<and>
   map_of getChallengeFailureModes ''CONNECTION_ERROR'' = Some 2"
  by (simp add: module_defs)

section \<open>Claims about both functions\<close>

text \<open>
  Claim C3. In every run of \<open>getChallenge\<close> and of \<open>postChallenge\<close>, whatever the
  collaborators do, \<open>result.failure\<close> is assigned at most once, no network call is
  pushed after that assignment, and the Result ends with the first (hence only) failure
  assigned, or with the \<open>failure\<close> field it came with when none was.
\<close>

theorem failure_assigned_at_most_once:
  "length (failures (fst (getChallenge e kp t))) \<le> 1 \<and>
   pushes (after_failure (fst (getChallenge e kp t))) = [] \<and>
   failure (run (fst (getChallenge e kp t)) r) =
     (case failures (fst (getChallenge e kp t)) of [] \<Rightarrow> failure r | f # fs \<Rightarrow> Some f) \<and>
   length (failures (fst (postChallenge e kp t useJson))) \<le> 1 \<and>
   pushes (after_failure (fst (postChallenge e kp t useJson))) = [] \<and>
   failure (run (fst (postChallenge e kp t useJson)) r) =
     (case failures (fst (postChallenge e kp t useJson)) of
        [] \<Rightarrow> failure r
      | f # fs \<Rightarrow> Some f)"
proof -
  have one: "length fs \<le> 1 \<Longrightarrow>
      (if fs = [] then x else Some (last fs)) = (case fs of [] \<Rightarrow> x | f # fs' \<Rightarrow> Some f)"
    for fs :: "Failure list" and x
    by (cases fs) auto
  show ?thesis
    using getChallenge_trace_shape [of e kp t] postChallenge_trace_shape [of e kp t useJson]
    by (simp add: failure_run one)
qed

theorem failure_assigned_at_most_once_witness:
  "failures (fst (postChallenge (post_server (Some (json_response 500 token_body))
      (Inr jwt_payload)) client stellar_toml False)) =
     [makeFailure UNEXPECTED_STATUS_CODE []] \<and>
   length (pushes (fst (postChallenge (post_server (Some (json_response 500 token_body))
      (Inr jwt_payload)) client stellar_toml False))) = 2 \<and>
   pushes (after_failure (fst (postChallenge (post_server (Some (json_response 500 token_body))
      (Inr jwt_payload)) client stellar_toml False))) = [] \<and>
   map_option name (failure (run (fst (postChallenge (post_server
      (Some (json_response 500 token_body)) (Inr jwt_payload)) client stellar_toml False))
      fresh_result)) = Some ''unexpected status code''"
proof -
  have st: "status (json_response 500 token_body) \<noteq> 200"
    by (simp add: json_response_def)
  note p = post_path_status [OF submitted_example st]
  show ?thesis
    using failure_assigned_at_most_once [of "post_server (Some (json_response 500 token_body))
      (Inr jwt_payload)" client stellar_toml fresh_result False]
    by (simp add: p fetch_writes_def name_makeFailure UNEXPECTED_STATUS_CODE_def)
qed

text \<open>
  Claim C2. A run of \<open>postChallenge\<close> that returns a token has pushed exactly two
  network calls, the GET of the challenge and then the POST of the signed challenge,
  both of which end up in \<open>result.networkCalls\<close> with their responses attached, and
  has never assigned \<open>result.failure\<close>, which is left as it was.
\<close>

theorem postChallenge_success_two_calls:
  assumes "postChallenge e kp t useJson = (w, Returned (Some token))"
  shows "(\<exists>q s p gr pr.
            spec_get_request e kp t = Some q \<and> spec_post_request e t s useJson = Some p \<and>
            pushes w = [\<lparr>request = q, response = None\<rparr>,
                        \<lparr>request = p, response = None\<rparr>] \<and>
            networkCalls (run w r) =
              networkCalls r @
                [\<lparr>request = q, response = Some gr\<rparr>,
                 \<lparr>request = p, response = Some pr\<rparr>]) \<and>
         map (\<lambda>c. method (request c)) (pushes w) = [''GET'', ''POST''] \<and>
         length (networkCalls (run w r)) = length (networkCalls r) + 2 \<and>
         failures w = [] \<and> failure (run w r) = failure r"
proof -
  from postChallenge_returns_token [OF assms] obtain w0 c s p pr b where
    tr: "token_read e kp t useJson w0 c s p pr b" and
    w: "w = w0 @ [Push \<lparr>request = p, response = None\<rparr>, SetResponse pr]"
    by blast
  from tr have g: "getChallenge e kp t = (w0, Returned (Some c))"
    and p: "spec_post_request e t s useJson = Some p"
    by (simp_all add: token_read_def submitted_def)
  from getChallenge_returns_challenge [OF g] obtain q gr where
    br: "body_read e kp t q gr" and
    w0: "w0 = [Push \<lparr>request = q, response = None\<rparr>, SetResponse gr]"
    by blast
  from br have q: "spec_get_request e kp t = Some q"
    by (simp add: body_read_def requested_def)
  have 1: "pushes w = [\<lparr>request = q, response = None\<rparr>, \<lparr>request = p, response = None\<rparr>]"
    and 2: "failures w = []"
    and 3: "networkCalls (run w r) =
           networkCalls r @
             [\<lparr>request = q, response = Some gr\<rparr>, \<lparr>request = p, response = Some pr\<rparr>]"
    and 4: "failure (run w r) = failure r"
    by (simp_all add: w w0 run_def)
  have 5: "map (\<lambda>c. method (request c)) (pushes w) = [''GET'', ''POST'']"
    by (simp add: 1 get_request_built [OF q] post_request_built(2) [OF p])
  have 6: "length (networkCalls (run w r)) = length (networkCalls r) + 2"
    by (simp add: 3)
  from q p 1 3 have "\<exists>q s p gr pr.
            spec_get_request e kp t = Some q \<and> spec_post_request e t s useJson = Some p \<and>
            pushes w = [\<lparr>request = q, response = None\<rparr>,
                        \<lparr>request = p, response = None\<rparr>] \<and>
            networkCalls (run w r) =
              networkCalls r @
                [\<lparr>request = q, response = Some gr\<rparr>,
                 \<lparr>request = p, response = Some pr\<rparr>]"
    by blast
  with 2 4 5 6 show ?thesis by blast
qed

theorem postChallenge_success_two_calls_witness:
  "snd (postChallenge good_server client stellar_toml True) = Returned (Some (Str ''h.p.s'')) \<and>
   map (\<lambda>c. method (request c)) (pushes (fst (postChallenge good_server client stellar_toml True)))
     = [''GET'', ''POST''] \<and>
   length (networkCalls (run (fst (postChallenge good_server client stellar_toml True))
     fresh_result)) = 2 \<and>
   failure (run (fst (postChallenge good_server client stellar_toml True)) fresh_result) = None"
proof -
  have p: "postChallenge good_server client stellar_toml True =
     (fst (postChallenge good_server client stellar_toml True), Returned (Some (Str ''h.p.s'')))"
    by (simp add: postChallenge_good_server)
  show ?thesis
    using postChallenge_success_two_calls [OF p, of fresh_result, THEN conjunct2]
    by (simp add: postChallenge_good_server fresh_result_def)
qed

text \<open>
  Claim C5. In the GET phase and in the POST phase alike, a status other than 200 makes
  the run write the UNEXPECTED_STATUS_CODE failure, then \<open>expected = 200\<close> and
  \<open>actual\<close> = the observed status, and return nothing; with status 200, a
  \<open>Content-Type\<close> that is missing or not exactly \<open>application/json\<close> makes it write
  the BAD_CONTENT_TYPE failure and \<open>expected = "application/json"\<close>, and \<open>actual\<close>
  only if the header is present (and not empty).
\<close>

theorem status_and_content_type_failures:
  "(requested e kp t q \<and> fetch e q = Some r \<and> status r \<noteq> 200 \<longrightarrow>
      getChallenge e kp t =
        ([Push \<lparr>request = q, response = None\<rparr>, SetResponse r,
          SetFailure (makeFailure UNEXPECTED_STATUS_CODE []),
          SetExpected (Num 200), SetActual (Num (status r))],
         Returned None)) \<and>
   (requested e kp t q \<and> fetch e q = Some r \<and>
    status r = 200 \<and> headers_get r ''Content-Type'' \<noteq> Some ''application/json'' \<longrightarrow>
      getChallenge e kp t =
        ([Push \<lparr>request = q, response = None\<rparr>, SetResponse r,
          SetFailure (makeFailure BAD_CONTENT_TYPE []),
          SetExpected (Str ''application/json'')] @
         (case headers_get r ''Content-Type'' of
            None \<Rightarrow> []
          | Some ct \<Rightarrow> if ct \<noteq> [] then [SetActual (Str ct)] else []),
         Returned None)) \<and>
   (submitted e kp t useJson w0 c s p r' \<and> status r' \<noteq> 200 \<longrightarrow>
      postChallenge e kp t useJson =
        (w0 @ [Push \<lparr>request = p, response = None\<rparr>,
               SetResponse r', SetFailure (makeFailure UNEXPECTED_STATUS_CODE []),
               SetExpected (Num 200), SetActual (Num (status r'))],
         Returned None)) \<and>
   (submitted e kp t useJson w0 c s p r' \<and> status r' = 200 \<and>
    headers_get r' ''Content-Type'' \<noteq> Some ''application/json'' \<longrightarrow>
      postChallenge e kp t useJson =
        (w0 @ [Push \<lparr>request = p, response = None\<rparr>,
               SetResponse r', SetFailure (makeFailure BAD_CONTENT_TYPE []),
               SetExpected (Str ''application/json'')] @
         (case headers_get r' ''Content-Type'' of
            None \<Rightarrow> []
          | Some ct \<Rightarrow> if ct \<noteq> [] then [SetActual (Str ct)] else []),
         Returned None))"
  using path_status [of e kp t q r] path_content_type [of e kp t q r]
    post_path_status [of e kp t useJson w0 c s p r']
    post_path_content_type [of e kp t useJson w0 c s p r']
  by blast

theorem status_and_content_type_failures_witness:
  "(let w = fst (getChallenge (get_server (Some (json_response 404 challenge_body))) client
                  stellar_toml);
        z = run w fresh_result
    in map_option name (failure z) = Some ''unexpected status code'' \<and>
       expected z = Some (Num 200) \<and> actual z = Some (Num 404)) \<and>
   (let w = fst (getChallenge (get_server (Some (typed_response (Some ''text/html'')))) client
                  stellar_toml);
        z = run w fresh_result
    in map_option name (failure z) = Some ''bad content type'' \<and>
       expected z = Some (Str ''application/json'') \<and> actual z = Some (Str ''text/html'')) \<and>
   (let w = fst (getChallenge (get_server (Some (typed_response None))) client stellar_toml);
        z = run w fresh_result
    in map_option name (failure z) = Some ''bad content type'' \<and>
       expected z = Some (Str ''application/json'') \<and> actual z = None) \<and>
   (let w = fst (postChallenge (post_server (Some (json_response 500 token_body))
                  (Inr jwt_payload)) client stellar_toml False);
        z = run w fresh_result
    in map_option name (failure z) = Some ''unexpected status code'' \<and>
       expected z = Some (Num 200) \<and> actual z = Some (Num 500)) \<and>
   (let w = fst (postChallenge (post_server (Some (typed_response None))
                  (Inr jwt_payload)) client stellar_toml True);
        z = run w fresh_result
    in map_option name (failure z) = Some ''bad content type'' \<and>
       expected z = Some (Str ''application/json'') \<and> actual z = None)"
proof -
  have a: "status (json_response 404 challenge_body) \<noteq> 200"
    "status (json_response 500 token_body) \<noteq> 200"
    "status (typed_response ct) = 200"
    "headers_get (typed_response ct) ''Content-Type'' = ct"
    for ct
    by (simp_all add: json_response_def typed_response_def)
  have n: "name (makeFailure UNEXPECTED_STATUS_CODE []) = ''unexpected status code''"
    "name (makeFailure BAD_CONTENT_TYPE []) = ''bad content type''"
    by (simp_all add: name_makeFailure UNEXPECTED_STATUS_CODE_def BAD_CONTENT_TYPE_def)
  note t = status_and_content_type_failures
  have g1: "getChallenge (get_server (Some (json_response 404 challenge_body))) client stellar_toml =
      ([Push \<lparr>request = challenge_request, response = None\<rparr>,
        SetResponse (json_response 404 challenge_body),
        SetFailure (makeFailure UNEXPECTED_STATUS_CODE []),
        SetExpected (Num 200), SetActual (Num 404)], Returned None)"
    using t [where e = "get_server (Some (json_response 404 challenge_body))" and kp = client
        and t = stellar_toml and q = challenge_request
        and r = "json_response 404 challenge_body"]
    by (simp add: get_server_read a) (simp add: json_response_def)
  have g2: "getChallenge (get_server (Some (typed_response (Some ''text/html'')))) client stellar_toml =
      ([Push \<lparr>request = challenge_request, response = None\<rparr>,
        SetResponse (typed_response (Some ''text/html'')),
        SetFailure (makeFailure BAD_CONTENT_TYPE []),
        SetExpected (Str ''application/json''), SetActual (Str ''text/html'')], Returned None)"
    using t [where e = "get_server (Some (typed_response (Some ''text/html'')))" and kp = client
        and t = stellar_toml and q = challenge_request
        and r = "typed_response (Some ''text/html'')"]
    by (simp add: get_server_read a)
  have g3: "getChallenge (get_server (Some (typed_response None))) client stellar_toml =
      ([Push \<lparr>request = challenge_request, response = None\<rparr>,
        SetResponse (typed_response None),
        SetFailure (makeFailure BAD_CONTENT_TYPE []),
        SetExpected (Str ''application/json'')], Returned None)"
    using t [where e = "get_server (Some (typed_response None))" and kp = client
        and t = stellar_toml and q = challenge_request and r = "typed_response None"]
    by (simp add: get_server_read a)
  have p1: "postChallenge (post_server (Some (json_response 500 token_body)) (Inr jwt_payload))
        client stellar_toml False =
      (fetch_writes @
        [Push \<lparr>request = submission_request False, response = None\<rparr>,
         SetResponse (json_response 500 token_body),
         SetFailure (makeFailure UNEXPECTED_STATUS_CODE []),
         SetExpected (Num 200), SetActual (Num 500)], Returned None)"
    using t [where e = "post_server (Some (json_response 500 token_body)) (Inr jwt_payload)"
        and kp = client and t = stellar_toml and useJson = False and ?w0.0 = fetch_writes
        and c = "challenge_with ''0''" and s = signed_challenge
        and p = "submission_request False" and r' = "json_response 500 token_body"]
    by (simp add: submitted_example a) (simp add: json_response_def)
  have p2: "postChallenge (post_server (Some (typed_response None)) (Inr jwt_payload))
        client stellar_toml True =
      (fetch_writes @
        [Push \<lparr>request = submission_request True, response = None\<rparr>,
         SetResponse (typed_response None),
         SetFailure (makeFailure BAD_CONTENT_TYPE []),
         SetExpected (Str ''application/json'')], Returned None)"
    using t [where e = "post_server (Some (typed_response None)) (Inr jwt_payload)"
        and kp = client and t = stellar_toml and useJson = True and ?w0.0 = fetch_writes
        and c = "challenge_with ''0''" and s = signed_challenge
        and p = "submission_request True" and r' = "typed_response None"]
    by (simp add: submitted_example a)
  show ?thesis
    unfolding Let_def g1 g2 g3 p1 p2 fst_conv
    by (simp add: run_def fresh_result_def fetch_writes_def n)
qed

section \<open>Claims about postChallenge\<close>

text \<open>
  Claim C7. Once the token has decoded to an object that passes the schema, the only
  remaining test is whether its \<open>sub\<close> parses as a public key: if not, the failure
  INVALID_JWT_SUB is written; if so, the token of the response body is returned as it
  is. The client's own public key plays no part in the test.
\<close>

theorem token_subject_only_parsed:
  assumes "token_read e kp t useJson w0 c s p r b" and "get_prop b ''token'' = Some tk"
    and "truthy tk" and "decode e tk = Inr j" and "truthy j" and "typeof_object j"
    and "validate e j = []"
  shows "(fromPublicKey e (field_of j ''sub'') \<longrightarrow>
            postChallenge e kp t useJson =
              (w0 @ [Push \<lparr>request = p, response = None\<rparr>, SetResponse r],
               Returned (Some tk))) \<and>
         (\<not> fromPublicKey e (field_of j ''sub'') \<longrightarrow>
            postChallenge e kp t useJson =
              (w0 @ [Push \<lparr>request = p, response = None\<rparr>,
                     SetResponse r, SetFailure (makeFailure INVALID_JWT_SUB [])],
               Returned None))"
  using post_path_sub [OF assms] by simp

theorem token_subject_only_parsed_witness:
  "field_of jwt_payload ''sub'' = Str ''GOTHER'' \<and> publicKey client = ''GCLIENT'' \<and>
   snd (postChallenge (post_server (Some (json_response 200 token_body)) (Inr jwt_payload))
     client stellar_toml False) = Returned (Some (Str ''h.p.s'')) \<and>
   snd (postChallenge (post_server (Some (json_response 200 token_body))
     (Inr (Obj [(''sub'', Str ''not a key'')]))) client stellar_toml False) = Returned None \<and>
   map name (failures (fst (postChallenge (post_server (Some (json_response 200 token_body))
     (Inr (Obj [(''sub'', Str ''not a key'')]))) client stellar_toml False))) =
     [''invalid jwt 'sub' attribute'']"
proof -
  have h: "get_prop token_body ''token'' = Some (Str ''h.p.s'')" "truthy (Str ''h.p.s'')"
    "decode (post_server (Some (json_response 200 token_body)) (Inr j)) (Str ''h.p.s'') = Inr j"
    "validate (post_server (Some (json_response 200 token_body)) (Inr j)) j' = []"
    for j j'
    by (simp_all add: example_defs)
  have o: "truthy jwt_payload" "typeof_object jwt_payload"
    "truthy (Obj [(''sub'', Str ''not a key'')])" "typeof_object (Obj [(''sub'', Str ''not a key'')])"
    by (simp_all add: jwt_payload_def)
  have k: "fromPublicKey (post_server (Some (json_response 200 token_body)) (Inr jwt_payload))
             (field_of jwt_payload ''sub'')"
    "\<not> fromPublicKey (post_server (Some (json_response 200 token_body))
             (Inr (Obj [(''sub'', Str ''not a key'')])))
             (field_of (Obj [(''sub'', Str ''not a key'')]) ''sub'')"
    "field_of jwt_payload ''sub'' = Str ''GOTHER''" "publicKey client = ''GCLIENT''"
    by (simp_all add: example_defs field_of_def)
  note good = token_subject_only_parsed [OF token_read_example h(1) h(2) h(3) o(1) o(2) h(4)]
  note bad = token_subject_only_parsed [OF token_read_example h(1) h(2) h(3) o(3) o(4) h(4)]
  show ?thesis
    using good [of False] bad [of False] k
    by (simp add: failures_append fetch_writes_def name_makeFailure INVALID_JWT_SUB_def)
qed

text \<open>
  Claim C9. A field that is present but falsy is treated like a missing one. Whatever
  falsy value the \<open>transaction\<close> field of the GET body holds, the run writes
  NO_TRANSACTION; whatever falsy value the \<open>token\<close> field of the POST body holds, it
  writes NO_TOKEN. The empty string is falsy, and so is \<open>undefined\<close>, which is what
  reading a missing field gives.
\<close>

theorem falsy_field_counts_as_missing:
  "(body_read e kp t q r \<and> json r = Some b \<and> get_prop b ''transaction'' = Some v \<and>
    \<not> truthy v \<longrightarrow>
      getChallenge e kp t =
        ([Push \<lparr>request = q, response = None\<rparr>, SetResponse r,
          SetFailure (makeFailure NO_TRANSACTION [])],
         Returned None)) \<and>
   (token_read e kp t useJson w0 c s p r' b' \<and> get_prop b' ''token'' = Some v' \<and>
    \<not> truthy v' \<longrightarrow>
      postChallenge e kp t useJson =
        (w0 @ [Push \<lparr>request = p, response = None\<rparr>,
               SetResponse r', SetFailure (makeFailure NO_TOKEN [])],
         Returned None)) \<and>
   \<not> truthy (Str []) \<and> \<not> truthy Undefined \<and>
   get_prop (Obj [(k, Str [])]) k = Some (Str []) \<and> get_prop (Obj []) k = Some Undefined"
  using path_no_transaction [of e kp t q r b v]
    post_path_no_token [of e kp t useJson w0 c s p r' b' v']
  by simp

theorem falsy_field_counts_as_missing_witness:
  "map name (failures (fst (getChallenge
      (get_server (Some (json_response 200 (Obj [(''transaction'', Str [])])))) client
      stellar_toml))) = [''missing 'transaction' field''] \<and>
   getChallenge (get_server (Some (json_response 200 (Obj [(''transaction'', Str [])])))) client
      stellar_toml =
     ([Push \<lparr>request = challenge_request, response = None\<rparr>,
       SetResponse (json_response 200 (Obj [(''transaction'', Str [])])),
       SetFailure (makeFailure NO_TRANSACTION [])], Returned None) \<and>
   getChallenge (get_server (Some (json_response 200 (Obj [])))) client stellar_toml =
     ([Push \<lparr>request = challenge_request, response = None\<rparr>,
       SetResponse (json_response 200 (Obj [])),
       SetFailure (makeFailure NO_TRANSACTION [])], Returned None) \<and>
   map name (failures (fst (postChallenge
      (post_server (Some (json_response 200 (Obj [(''token'', Str [])]))) (Inr jwt_payload))
      client stellar_toml False))) = [''no token''] \<and>
   snd (postChallenge
      (post_server (Some (json_response 200 (Obj [(''token'', Str [])]))) (Inr jwt_payload))
      client stellar_toml False) = Returned None \<and>
   map name (failures (fst (postChallenge
      (post_server (Some (json_response 200 (Obj []))) (Inr jwt_payload))
      client stellar_toml False))) = [''no token'']"
proof -
  have br: "body_read (get_server (Some (json_response 200 b))) client stellar_toml
      challenge_request (json_response 200 b)" for b
    unfolding get_server_def by (rule body_read_server)
  have j: "json (json_response 200 b) = Some b" for b
    by (simp add: json_response_def)
  have f: "\<not> truthy (Str [])" "\<not> truthy Undefined"
    "get_prop (Obj [(''transaction'', Str [])]) ''transaction'' = Some (Str [])"
    "get_prop (Obj []) ''transaction'' = Some Undefined"
    "get_prop (Obj [(''token'', Str [])]) ''token'' = Some (Str [])"
    "get_prop (Obj []) ''token'' = Some Undefined"
    by simp_all
  note t = falsy_field_counts_as_missing
  have g1: "getChallenge (get_server (Some (json_response 200 (Obj [(''transaction'', Str [])]))))
      client stellar_toml =
     ([Push \<lparr>request = challenge_request, response = None\<rparr>,
       SetResponse (json_response 200 (Obj [(''transaction'', Str [])])),
       SetFailure (makeFailure NO_TRANSACTION [])], Returned None)"
    using t [THEN conjunct1, rule_format, OF conjI [OF br conjI [OF j conjI [OF f(3) f(1)]]]]
    by simp
  have g2: "getChallenge (get_server (Some (json_response 200 (Obj [])))) client stellar_toml =
     ([Push \<lparr>request = challenge_request, response = None\<rparr>,
       SetResponse (json_response 200 (Obj [])),
       SetFailure (makeFailure NO_TRANSACTION [])], Returned None)"
    using t [THEN conjunct1, rule_format, OF conjI [OF br conjI [OF j conjI [OF f(4) f(2)]]]]
    by simp
  have p1: "postChallenge
      (post_server (Some (json_response 200 (Obj [(''token'', Str [])]))) (Inr jwt_payload))
      client stellar_toml False =
     (fetch_writes @ [Push \<lparr>request = submission_request False, response = None\<rparr>,
        SetResponse (json_response 200 (Obj [(''token'', Str [])])),
        SetFailure (makeFailure NO_TOKEN [])], Returned None)"
    using t [THEN conjunct2, THEN conjunct1, rule_format,
        OF conjI [OF token_read_example conjI [OF f(5) f(1)]]]
    by simp
  have p2: "postChallenge
      (post_server (Some (json_response 200 (Obj []))) (Inr jwt_payload))
      client stellar_toml False =
     (fetch_writes @ [Push \<lparr>request = submission_request False, response = None\<rparr>,
        SetResponse (json_response 200 (Obj [])),
        SetFailure (makeFailure NO_TOKEN [])], Returned None)"
    using t [THEN conjunct2, THEN conjunct1, rule_format,
        OF conjI [OF token_read_example conjI [OF f(6) f(2)]]]
    by simp
  show ?thesis
    unfolding g1 g2 p1 p2 fst_conv snd_conv
    by (simp add: failures_append fetch_writes_def name_makeFailure NO_TRANSACTION_def
        NO_TOKEN_def)
qed

end
